theory Spec2Isabelle
  imports Complex_Main
begin

section \<open>JavaScript values\<close>

text \<open>
  The library is dynamically typed: \<open>data\<close>, \<open>type\<close> and \<open>format\<close> reach the service
  as arbitrary values, and the code tests them with \<open>!x\<close>, \<open>typeof\<close> and template
  literals. The values that matter are the primitives and a plain object.
  Strings are character lists (code units below 256); numbers that are printed or
  compared are integers.
\<close>

datatype jsval =
    JUndefined
  | JNull
  | JBool bool
  | JNum int
  | JStr string
  | JObj

fun truthy :: "jsval \<Rightarrow> bool" where
  "truthy JUndefined = False"
| "truthy JNull = False"
| "truthy (JBool b) = b"
| "truthy (JNum n) = (n \<noteq> 0)"
| "truthy (JStr s) = (s \<noteq> [])"
| "truthy JObj = True"

fun is_string :: "jsval \<Rightarrow> bool" where
  "is_string (JStr s) = True"
| "is_string v = False"

definition digit_char :: "nat \<Rightarrow> char" where
  "digit_char d = ''0123456789abcdefghijklmnopqrstuvwxyz'' ! (d mod 36)"

text \<open>\<open>Number.prototype.toString(radix)\<close> on a non-negative integer, for a radix
  from 2 to 36 (the code uses 10, 16 and 36).\<close>

function show_nat_radix :: "nat \<Rightarrow> nat \<Rightarrow> string" where
  "show_nat_radix r n =
     (if n < r \<or> r < 2 then [digit_char n]
      else show_nat_radix r (n div r) @ [digit_char (n mod r)])"
  by pat_completeness auto
termination
  by (relation "measure snd") (auto intro: div_less_dividend)

declare show_nat_radix.simps [simp del]

definition show_nat :: "nat \<Rightarrow> string" where
  "show_nat n = show_nat_radix 10 n"

definition show_int :: "int \<Rightarrow> string" where
  "show_int i = (if i < 0 then CHR ''-'' # show_nat (nat (- i)) else show_nat (nat i))"

text \<open>What a template literal \<open>`${v}`\<close> or a property key \<open>obj[v]\<close> makes of a value.\<close>

fun js_to_string :: "jsval \<Rightarrow> string" where
  "js_to_string JUndefined = ''undefined''"
| "js_to_string JNull = ''null''"
| "js_to_string (JBool b) = (if b then ''true'' else ''false'')"
| "js_to_string (JNum n) = show_int n"
| "js_to_string (JStr s) = s"
| "js_to_string JObj = ''[object Object]''"

text \<open>\<open>Array.prototype.join(', ')\<close> on an array of strings.\<close>

fun join :: "string \<Rightarrow> string list \<Rightarrow> string" where
  "join sep [] = []"
| "join sep [x] = x"
| "join sep (x # y # ys) = x @ sep @ join sep (y # ys)"

subsection \<open>Property lookup on object literals\<close>

text \<open>
  An object literal inherits from \<open>Object.prototype\<close>, so \<open>obj[key]\<close> finds the
  literal's own entries first and the prototype's members after them. Every member of
  \<open>Object.prototype\<close> is a function or (for \<open>__proto__\<close>) the prototype object, hence
  truthy, and none of them has the fields of the literal's entries.
\<close>

definition Object_prototype_keys :: "string list" where
  "Object_prototype_keys =
     [''constructor'', ''__defineGetter__'', ''__defineSetter__'', ''hasOwnProperty'',
      ''__lookupGetter__'', ''__lookupSetter__'', ''isPrototypeOf'',
      ''propertyIsEnumerable'', ''toString'', ''valueOf'', ''__proto__'',
      ''toLocaleString'']"

datatype 'a js_prop =
    Own 'a
  | Inherited string
  | Absent

definition js_get :: "(string \<times> 'a) list \<Rightarrow> jsval \<Rightarrow> 'a js_prop" where
  "js_get obj key =
     (case map_of obj (js_to_string key) of
        Some v \<Rightarrow> Own v
      | None \<Rightarrow>
          if List.member Object_prototype_keys (js_to_string key)
          then Inherited (js_to_string key) else Absent)"

section \<open>Type registry: \<open>BarcodeTypes\<close>\<close>

definition TYPES :: "string list" where
  "TYPES =
     [''code128'', ''code128a'', ''code128b'', ''code128c'', ''code128auto'',
      ''code39'', ''code39extended'', ''code39checksum'', ''code39auto'', ''code93'',
      ''code25'', ''code25auto'', ''code32'', ''standard25'', ''standard25checksum'',
      ''interleaved25'', ''interleaved25checksum'', ''interleaved25auto'',
      ''msi'', ''msichecksum'', ''msiauto'',
      ''ean13'', ''ean8'', ''ean2'', ''ean5'', ''upca'', ''upce'', ''itf14'',
      ''postnet'', ''planet'', ''rms4cc'', ''kix'', ''imb'',
      ''codabar'', ''code11'', ''pharmacode'', ''pharmacodetwotracks'',
      ''qrcode'', ''datamatrix'', ''aztec'', ''pdf417'', ''microqr'', ''maxicode'',
      ''code16k'', ''code49'']"

definition getAll :: "string list" where
  "getAll = TYPES"

text \<open>\<open>Object.values(this.TYPES).includes(type)\<close>: only a string equal to a listed
  identifier is found.\<close>

fun isValid :: "jsval \<Rightarrow> bool" where
  "isValid (JStr t) = List.member TYPES t"
| "isValid v = False"

record config =
  minLength :: nat
  maxLength :: nat
  charset :: string

definition configs :: "(string \<times> config) list" where
  "configs =
     [(''code128'', \<lparr>minLength = 1, maxLength = 80, charset = ''ASCII''\<rparr>),
      (''code128a'', \<lparr>minLength = 1, maxLength = 80, charset = ''ASCII A''\<rparr>),
      (''code128b'', \<lparr>minLength = 1, maxLength = 80, charset = ''ASCII B''\<rparr>),
      (''code128c'', \<lparr>minLength = 2, maxLength = 80, charset = ''Numeric''\<rparr>),
      (''code39'', \<lparr>minLength = 1, maxLength = 43, charset = ''0-9, A-Z, space, -.$/+%''\<rparr>),
      (''code39extended'', \<lparr>minLength = 1, maxLength = 43, charset = ''Extended ASCII''\<rparr>),
      (''code93'', \<lparr>minLength = 1, maxLength = 43, charset = ''0-9, A-Z, -.$/+%''\<rparr>),
      (''ean13'', \<lparr>minLength = 12, maxLength = 13, charset = ''Numeric''\<rparr>),
      (''ean8'', \<lparr>minLength = 7, maxLength = 8, charset = ''Numeric''\<rparr>),
      (''upca'', \<lparr>minLength = 11, maxLength = 12, charset = ''Numeric''\<rparr>),
      (''upce'', \<lparr>minLength = 6, maxLength = 8, charset = ''Numeric''\<rparr>),
      (''qrcode'', \<lparr>minLength = 1, maxLength = 2953, charset = ''Unicode''\<rparr>),
      (''datamatrix'', \<lparr>minLength = 1, maxLength = 2335, charset = ''Unicode''\<rparr>),
      (''pdf417'', \<lparr>minLength = 1, maxLength = 1850, charset = ''Unicode''\<rparr>)]"

definition fallback_config :: config where
  "fallback_config = \<lparr>minLength = 1, maxLength = 100, charset = ''Unknown''\<rparr>"

text \<open>\<open>configs[type] || { minLength: 1, maxLength: 100, charset: "Unknown" }\<close>: an own
  entry or an inherited member is truthy and is returned as it is; only a key found
  nowhere gives the fallback.\<close>

datatype config_value =
    Config config
  | PrototypeMember string

definition getConfig :: "jsval \<Rightarrow> config_value" where
  "getConfig type =
     (case js_get configs type of
        Own c \<Rightarrow> Config c
      | Inherited k \<Rightarrow> PrototypeMember k
      | Absent \<Rightarrow> Config fallback_config)"

section \<open>Format registry: \<open>RenderFormats\<close>\<close>

definition FORMATS :: "string list" where
  "FORMATS = [''png'', ''svg'', ''html'', ''pdf'', ''jpg'', ''jpeg'']"

definition RenderFormats_getAll :: "string list" where
  "RenderFormats_getAll = FORMATS"

fun RenderFormats_isValid :: "jsval \<Rightarrow> bool" where
  "RenderFormats_isValid (JStr f) = List.member FORMATS f"
| "RenderFormats_isValid v = False"

section \<open>Validator\<close>

text \<open>
  A validation result is an object whose keys vary with the branch that built it:
  \<open>valid\<close> is always there, the other keys are \<open>None\<close> where the object has no such
  key (or holds \<open>null\<close>).
\<close>

record validation =
  valid :: bool
  error :: "string option"
  v_data :: "string option"
  v_type :: "string option"
  v_length :: "nat option"
  v_charset :: "string option"

definition invalid :: "string \<Rightarrow> validation" where
  "invalid msg = \<lparr>valid = False, error = Some msg, v_data = None, v_type = None,
                  v_length = None, v_charset = None\<rparr>"

definition ok :: validation where
  "ok = \<lparr>valid = True, error = None, v_data = None, v_type = None,
         v_length = None, v_charset = None\<rparr>"

subsection \<open>The regular expressions\<close>

definition code_unit :: "char \<Rightarrow> nat" where
  "code_unit c = of_char c"

definition is_digit :: "char \<Rightarrow> bool" where
  "is_digit c = (48 \<le> code_unit c \<and> code_unit c \<le> 57)"

definition is_upper :: "char \<Rightarrow> bool" where
  "is_upper c = (65 \<le> code_unit c \<and> code_unit c \<le> 90)"

definition is_lower :: "char \<Rightarrow> bool" where
  "is_lower c = (97 \<le> code_unit c \<and> code_unit c \<le> 122)"

text \<open>The class \<open>\s\<close>, among the code units below 256.\<close>

definition is_space :: "char \<Rightarrow> bool" where
  "is_space c = List.member [9, 10, 11, 12, 13, 32, 160] (code_unit c)"

text \<open>\<open>/^[\x00-\x7F]+$/\<close>\<close>

definition ascii_pattern :: "string \<Rightarrow> bool" where
  "ascii_pattern s = (s \<noteq> [] \<and> list_all (\<lambda>c. code_unit c \<le> 127) s)"

text \<open>\<open>patterns.alphanumeric = /^[A-Za-z0-9]+$/\<close>\<close>

definition alphanumeric_pattern :: "string \<Rightarrow> bool" where
  "alphanumeric_pattern s =
     (s \<noteq> [] \<and> list_all (\<lambda>c. is_upper c \<or> is_lower c \<or> is_digit c) s)"

text \<open>\<open>patterns.code39 = /^[A-Z0-9\s\-\.\$\/\+\%]+$/\<close>\<close>

definition code39_pattern :: "string \<Rightarrow> bool" where
  "code39_pattern s =
     (s \<noteq> [] \<and> list_all (\<lambda>c. is_upper c \<or> is_digit c \<or> is_space c \<or> List.member ''-.$/+%'' c) s)"

text \<open>\<open>/^[0-9]{lo,hi}$/\<close>, the shape of the four EAN/UPC patterns.\<close>

definition digits_pattern :: "nat \<Rightarrow> nat \<Rightarrow> string \<Rightarrow> bool" where
  "digits_pattern lo hi s = (lo \<le> length s \<and> length s \<le> hi \<and> list_all is_digit s)"

subsection \<open>The check digit\<close>

text \<open>
  Numbers of the checksum are \<open>nat option\<close>, \<open>None\<close> being \<open>NaN\<close>: \<open>parseInt\<close> of a
  one-character string that is no digit is \<open>NaN\<close>, arithmetic on \<open>NaN\<close> is \<open>NaN\<close>, and
  \<open>!==\<close> holds whenever a side is \<open>NaN\<close>.
\<close>

definition parseInt_char :: "char \<Rightarrow> nat option" where
  "parseInt_char c = (if is_digit c then Some (code_unit c - 48) else None)"

definition num_add :: "nat option \<Rightarrow> nat option \<Rightarrow> nat option" where
  "num_add a b = (case a of None \<Rightarrow> None | Some x \<Rightarrow> (case b of None \<Rightarrow> None | Some y \<Rightarrow> Some (x + y)))"

definition num_times :: "nat option \<Rightarrow> nat \<Rightarrow> nat option" where
  "num_times a k = (case a of None \<Rightarrow> None | Some x \<Rightarrow> Some (x * k))"

definition strict_neq :: "nat option \<Rightarrow> nat option \<Rightarrow> bool" where
  "strict_neq a b = (case a of None \<Rightarrow> True | Some x \<Rightarrow> (case b of None \<Rightarrow> True | Some y \<Rightarrow> x \<noteq> y))"

text \<open>The loop \<open>for (let i = 0; i < data.length; i++)\<close>, from index \<open>i\<close> on, over the
  characters still to read.\<close>

fun ean_sum :: "nat \<Rightarrow> nat option \<Rightarrow> string \<Rightarrow> nat option" where
  "ean_sum i s [] = s"
| "ean_sum i s (c # cs) =
     ean_sum (i + 1)
       (num_add s (if i mod 2 = 0 then parseInt_char c else num_times (parseInt_char c) 3))
       cs"

definition calculateEANCheckDigit :: "string \<Rightarrow> nat option" where
  "calculateEANCheckDigit data =
     (case ean_sum 0 (Some 0) data of
        None \<Rightarrow> None
      | Some s \<Rightarrow> Some ((10 - s mod 10) mod 10))"

subsection \<open>Per-type checkers\<close>

definition validateCode128 :: "string \<Rightarrow> jsval \<Rightarrow> validation" where
  "validateCode128 data type =
     (if \<not> ascii_pattern data then invalid ''Code 128 supports ASCII characters only''
      else ok)"

definition validateCode39 :: "string \<Rightarrow> jsval \<Rightarrow> validation" where
  "validateCode39 data type =
     (if type = JStr ''code39extended'' then
        (if \<not> ascii_pattern data
         then invalid ''Extended Code 39 supports ASCII characters only'' else ok)
      else
        (if \<not> code39_pattern data
         then invalid ''Code 39 supports characters: A-Z, 0-9, space, -.$/+%'' else ok))"

definition validateCode93 :: "string \<Rightarrow> validation" where
  "validateCode93 data =
     (if \<not> alphanumeric_pattern data
      then invalid ''Code 93 supports alphanumeric characters only'' else ok)"

text \<open>\<open>data[12]\<close> is read only when \<open>data.length === 13\<close>, \<open>data[7]\<close> only when
  \<open>data.length === 8\<close>; \<open>substring(0, n)\<close> is \<open>take n\<close>.\<close>

definition validateEAN13 :: "string \<Rightarrow> validation" where
  "validateEAN13 data =
     (if \<not> digits_pattern 12 13 data then invalid ''EAN-13 must be 12 or 13 digits''
      else if length data = 13 \<and>
              strict_neq (parseInt_char (data ! 12)) (calculateEANCheckDigit (take 12 data))
      then invalid ''Invalid EAN-13 check digit''
      else ok)"

definition validateEAN8 :: "string \<Rightarrow> validation" where
  "validateEAN8 data =
     (if \<not> digits_pattern 7 8 data then invalid ''EAN-8 must be 7 or 8 digits''
      else if length data = 8 \<and>
              strict_neq (parseInt_char (data ! 7)) (calculateEANCheckDigit (take 7 data))
      then invalid ''Invalid EAN-8 check digit''
      else ok)"

definition validateUPCA :: "string \<Rightarrow> validation" where
  "validateUPCA data =
     (if \<not> digits_pattern 11 12 data then invalid ''UPC-A must be 11 or 12 digits'' else ok)"

definition validateUPCE :: "string \<Rightarrow> validation" where
  "validateUPCE data =
     (if \<not> digits_pattern 6 8 data then invalid ''UPC-E must be 6 to 8 digits'' else ok)"

definition validateQRCode :: "string \<Rightarrow> validation" where
  "validateQRCode data =
     (if length data = 0 then invalid ''QR Code data cannot be empty'' else ok)"

definition validateDataMatrix :: "string \<Rightarrow> validation" where
  "validateDataMatrix data =
     (if length data = 0 then invalid ''Data Matrix data cannot be empty'' else ok)"

definition validatePDF417 :: "string \<Rightarrow> validation" where
  "validatePDF417 data =
     (if length data = 0 then invalid ''PDF417 data cannot be empty'' else ok)"

text \<open>The \<open>switch (type)\<close> compares with \<open>===\<close>, so only strings reach a case.\<close>

definition validateByType :: "string \<Rightarrow> jsval \<Rightarrow> validation" where
  "validateByType data type =
     (if List.member [JStr ''code128'', JStr ''code128a'', JStr ''code128b'',
                      JStr ''code128c'', JStr ''code128auto''] type
      then validateCode128 data type
      else if List.member [JStr ''code39'', JStr ''code39extended'',
                           JStr ''code39checksum'', JStr ''code39auto''] type
      then validateCode39 data type
      else if type = JStr ''code93'' then validateCode93 data
      else if type = JStr ''ean13'' then validateEAN13 data
      else if type = JStr ''ean8'' then validateEAN8 data
      else if type = JStr ''upca'' then validateUPCA data
      else if type = JStr ''upce'' then validateUPCE data
      else if type = JStr ''qrcode'' then validateQRCode data
      else if type = JStr ''datamatrix'' then validateDataMatrix data
      else if type = JStr ''pdf417'' then validatePDF417 data
      else \<lparr>valid = (length data > 0),
            error = (if length data = 0 then Some ''Data cannot be empty'' else None),
            v_data = None, v_type = None, v_length = None, v_charset = None\<rparr>)"

subsection \<open>\<open>validate\<close>\<close>

fun str_of :: "jsval \<Rightarrow> string" where
  "str_of (JStr s) = s"
| "str_of v = []"

text \<open>The fields of what \<open>getConfig\<close> returned; a member of \<open>Object.prototype\<close> has
  none of them (\<open>undefined\<close>), and a comparison with \<open>undefined\<close> is false.\<close>

fun config_minLength :: "config_value \<Rightarrow> nat option" where
  "config_minLength (Config c) = Some (minLength c)"
| "config_minLength (PrototypeMember k) = None"

fun config_maxLength :: "config_value \<Rightarrow> nat option" where
  "config_maxLength (Config c) = Some (maxLength c)"
| "config_maxLength (PrototypeMember k) = None"

fun config_charset :: "config_value \<Rightarrow> string option" where
  "config_charset (Config c) = Some (charset c)"
| "config_charset (PrototypeMember k) = None"

definition too_short :: "nat \<Rightarrow> config_value \<Rightarrow> bool" where
  "too_short n c = (case config_minLength c of Some m \<Rightarrow> n < m | None \<Rightarrow> False)"

definition too_long :: "nat \<Rightarrow> config_value \<Rightarrow> bool" where
  "too_long n c = (case config_maxLength c of Some m \<Rightarrow> n > m | None \<Rightarrow> False)"

definition show_opt_nat :: "nat option \<Rightarrow> string" where
  "show_opt_nat n = (case n of Some k \<Rightarrow> show_nat k | None \<Rightarrow> ''undefined'')"

definition validate :: "jsval \<Rightarrow> jsval \<Rightarrow> validation" where
  "validate data type =
     (if \<not> truthy data \<or> \<not> is_string data then invalid ''Data must be a non-empty string''
      else if \<not> isValid type then invalid (''Invalid barcode type: '' @ js_to_string type)
      else
        let config = getConfig type; d = str_of data in
        if too_short (length d) config
        then invalid (''Data too short. Minimum length: '' @ show_opt_nat (config_minLength config))
        else if too_long (length d) config
        then invalid (''Data too long. Maximum length: '' @ show_opt_nat (config_maxLength config))
        else
          let validationResult = validateByType d type in
          if \<not> valid validationResult then validationResult
          else \<lparr>valid = True, error = None, v_data = Some d, v_type = Some (str_of type),
                v_length = Some (length d), v_charset = config_charset config\<rparr>)"

section \<open>Render options\<close>

text \<open>
  The options object a caller passes: a key the caller left out is \<open>None\<close>. Each
  renderer spreads it over its own defaults, \<open>{ ...this.defaultOptions, ...options }\<close>,
  so a key that is present wins.
\<close>

record render_options =
  opt_width :: "int option"
  opt_height :: "int option"
  opt_displayValue :: "bool option"
  opt_fontSize :: "int option"
  opt_textAlign :: "string option"
  opt_textPosition :: "string option"
  opt_textMargin :: "int option"
  opt_background :: "string option"
  opt_lineColor :: "string option"
  opt_margin :: "int option"
  opt_marginTop :: "int option"
  opt_marginBottom :: "int option"
  opt_marginLeft :: "int option"
  opt_marginRight :: "int option"
  opt_className :: "string option"
  opt_id :: "string option"
  opt_pageWidth :: "int option"
  opt_pageHeight :: "int option"

definition no_options :: render_options where
  "no_options =
     \<lparr>opt_width = None, opt_height = None, opt_displayValue = None, opt_fontSize = None,
      opt_textAlign = None, opt_textPosition = None, opt_textMargin = None,
      opt_background = None, opt_lineColor = None, opt_margin = None,
      opt_marginTop = None, opt_marginBottom = None, opt_marginLeft = None,
      opt_marginRight = None, opt_className = None, opt_id = None,
      opt_pageWidth = None, opt_pageHeight = None\<rparr>"

section \<open>Barcode service\<close>

text \<open>
  A renderer is \<open>render(data, type, options)\<close>: it returns its artifact or throws an
  \<open>Error\<close>, \<open>Inl\<close> of the message. The service owns one renderer for each of
  \<open>png\<close>, \<open>svg\<close>, \<open>html\<close> and \<open>pdf\<close>.
\<close>

type_synonym 'a renderer = "string \<Rightarrow> string \<Rightarrow> render_options \<Rightarrow> string + 'a"

record 'a renderers =
  png_renderer :: "'a renderer"
  svg_renderer :: "'a renderer"
  html_renderer :: "'a renderer"
  pdf_renderer :: "'a renderer"

definition renderers_object :: "'a renderers \<Rightarrow> (string \<times> 'a renderer) list" where
  "renderers_object rs =
     [(''png'', png_renderer rs), (''svg'', svg_renderer rs),
      (''html'', html_renderer rs), (''pdf'', pdf_renderer rs)]"

text \<open>One entry for each call of a renderer's \<open>render\<close>: format, data, type, options.\<close>

type_synonym render_call = "string \<times> string \<times> string \<times> render_options"

text \<open>\<open>${validation.error}\<close>; a rejected result always carries its message, so the
  second case is never printed.\<close>

definition error_text :: "validation \<Rightarrow> string" where
  "error_text v = (case error v of Some e \<Rightarrow> e | None \<Rightarrow> ''null'')"

text \<open>
  \<open>generate(data, type = 'code128', format = 'png', options = {})\<close>: a parameter
  default replaces \<open>undefined\<close> only. The result is what the call returns or the
  message of the \<open>Error\<close> it throws, together with the renderer calls it made.
\<close>

definition default_arg :: "jsval \<Rightarrow> string \<Rightarrow> jsval" where
  "default_arg v d = (if v = JUndefined then JStr d else v)"

definition generate ::
  "'a renderers \<Rightarrow> jsval \<Rightarrow> jsval \<Rightarrow> jsval \<Rightarrow> render_options \<Rightarrow> (string + 'a) \<times> render_call list" where
  "generate rs data type0 format0 options =
     (let type = default_arg type0 ''code128''; format = default_arg format0 ''png'' in
      if \<not> truthy data \<or> \<not> is_string data
      then (Inl ''Data must be a non-empty string'', [])
      else if \<not> isValid type
      then (Inl (''Invalid barcode type: '' @ js_to_string type @ ''. Supported types: ''
                 @ join '', '' getAll), [])
      else if \<not> RenderFormats_isValid format
      then (Inl (''Invalid format: '' @ js_to_string format @ ''. Supported formats: ''
                 @ join '', '' RenderFormats_getAll), [])
      else
        let validation = validate data type in
        if \<not> valid validation
        then (Inl (''Invalid data for '' @ js_to_string type @ '': '' @ error_text validation), [])
        else
          (case js_get (renderers_object rs) format of
             Absent \<Rightarrow> (Inl (''No renderer available for format: '' @ js_to_string format), [])
           | Inherited k \<Rightarrow> (Inl ''renderer.render is not a function'', [])
           | Own renderer \<Rightarrow>
               (renderer (str_of data) (str_of type) options,
                [(str_of format, str_of data, str_of type, options)])))"

subsection \<open>\<open>batch\<close>\<close>

text \<open>
  A batch item is an object \<open>{data, type, format, options}\<close>; a key it lacks is
  \<open>undefined\<close> (\<open>None\<close> for the options). The items arrive as an array, and an
  element of the array is such an object, \<open>null\<close> or \<open>undefined\<close> (a primitive
  element destructures like an object without keys).
\<close>

record batch_item =
  item_data :: jsval
  item_type :: jsval
  item_format :: jsval
  item_options :: "render_options option"

datatype batch_element =
    Item batch_item
  | NullItem
  | UndefinedItem

record 'a batch_result =
  index :: nat
  success :: bool
  result :: "'a option"
  br_error :: "string option"
  br_data :: jsval
  br_type :: jsval
  br_format :: jsval

text \<open>\<open>item.type || 'code128'\<close> in the \<open>catch\<close> branch: any falsy value is replaced.\<close>

definition or_default :: "jsval \<Rightarrow> string \<Rightarrow> jsval" where
  "or_default v d = (if truthy v then v else JStr d)"

text \<open>The callback of \<open>items.map((item, index) => ...)\<close>: the destructuring with
  defaults, the call \<open>this.generate(data, type, format, options)\<close> inside \<open>try\<close>, and
  the \<open>catch\<close>.\<close>

definition item_generate :: "'a renderers \<Rightarrow> batch_item \<Rightarrow> (string + 'a) \<times> render_call list" where
  "item_generate rs item =
     generate rs (item_data item)
       (default_arg (item_type item) ''code128'')
       (default_arg (item_format item) ''png'')
       (case item_options item of None \<Rightarrow> no_options | Some opts \<Rightarrow> opts)"

definition batch_entry :: "'a renderers \<Rightarrow> nat \<Rightarrow> batch_item \<Rightarrow> 'a batch_result \<times> render_call list" where
  "batch_entry rs i item =
     (case item_generate rs item of
        (Inr r, calls) \<Rightarrow>
          (\<lparr>index = i, success = True, result = Some r, br_error = None,
            br_data = item_data item,
            br_type = default_arg (item_type item) ''code128'',
            br_format = default_arg (item_format item) ''png''\<rparr>, calls)
      | (Inl msg, calls) \<Rightarrow>
          (\<lparr>index = i, success = False, result = None, br_error = Some msg,
            br_data = item_data item,
            br_type = or_default (item_type item) ''code128'',
            br_format = or_default (item_format item) ''png''\<rparr>, calls))"

text \<open>
  On \<open>null\<close> or \<open>undefined\<close> the destructuring inside \<open>try\<close> throws a \<open>TypeError\<close>;
  the \<open>catch\<close> handler then reads \<open>item.data\<close> and throws a \<open>TypeError\<close> itself, which
  nothing catches: \<open>map\<close> stops and \<open>batch\<close> throws. The message is the engine's.
\<close>

definition cannot_read :: "string \<Rightarrow> string" where
  "cannot_read what =
     ''Cannot read properties of '' @ what @ '' (reading '' @ [CHR 0x27] @ ''data''
     @ [CHR 0x27] @ '')''"

text \<open>\<open>items.map((item, index) => ...)\<close> from index \<open>i\<close> on: the results in order, or
  the message of what was thrown, together with the renderer calls made until then.\<close>

fun batch_from ::
  "'a renderers \<Rightarrow> nat \<Rightarrow> batch_element list \<Rightarrow> (string + 'a batch_result list) \<times> render_call list" where
  "batch_from rs i [] = (Inr [], [])"
| "batch_from rs i (NullItem # rest) = (Inl (cannot_read ''null''), [])"
| "batch_from rs i (UndefinedItem # rest) = (Inl (cannot_read ''undefined''), [])"
| "batch_from rs i (Item item # rest) =
     (case batch_entry rs i item of
        (r, calls) \<Rightarrow>
          (case batch_from rs (Suc i) rest of
             (Inl msg, calls') \<Rightarrow> (Inl msg, calls @ calls')
           | (Inr results, calls') \<Rightarrow> (Inr (r # results), calls @ calls')))"

definition batch ::
  "'a renderers \<Rightarrow> batch_element list \<Rightarrow> (string + 'a batch_result list) \<times> render_call list" where
  "batch rs items = batch_from rs 0 items"

section \<open>Advanced composition: \<open>QrCodeBuilder\<close>\<close>

text \<open>
  The configuration object of a builder. Sizes and coordinates are exact rationals
  (the code halves and scales them); \<open>null\<close> is \<open>None\<close>; the watermark position is
  any value, since it is used as a property key.
\<close>

record qr_options =
  qr_data :: string
  qr_size :: rat
  qr_margin :: rat
  qr_errorCorrectionLevel :: string
  qr_foregroundColor :: "nat list"
  qr_backgroundColor :: "nat list"
  qr_logoPath :: "string option"
  qr_logoSize :: rat
  qr_label :: "string option"
  qr_labelFont :: "string option"
  qr_labelFontSize :: int
  qr_watermark :: "string option"
  qr_watermarkPosition :: jsval
  qr_format :: string

definition default_qr_options :: qr_options where
  "default_qr_options =
     \<lparr>qr_data = [], qr_size = 300, qr_margin = 10, qr_errorCorrectionLevel = ''M'',
      qr_foregroundColor = [0, 0, 0], qr_backgroundColor = [255, 255, 255],
      qr_logoPath = None, qr_logoSize = 60, qr_label = None, qr_labelFont = None,
      qr_labelFontSize = 16, qr_watermark = None, qr_watermarkPosition = JStr ''center'',
      qr_format = ''png''\<rparr>"

subsection \<open>Objects and references\<close>

text \<open>
  A builder and a result each hold a reference to a configuration object; the store
  maps references to objects, and \<open>next_ref\<close> is the next unused reference.
\<close>

type_synonym ref = nat

record heap =
  objects :: "ref \<Rightarrow> qr_options"
  next_ref :: ref

record QrCodeBuilder =
  builder_options :: ref

record QrCodeResult =
  result_options :: ref

definition empty_heap :: heap where
  "empty_heap = \<lparr>objects = (\<lambda>r. default_qr_options), next_ref = 0\<rparr>"

text \<open>The constructor: \<open>this.options = { ...defaults, ...options }\<close> is a new object,
  the caller's keys (\<open>overrides\<close>) written over the defaults.\<close>

definition QrCodeBuilder_create :: "(qr_options \<Rightarrow> qr_options) \<Rightarrow> heap \<Rightarrow> QrCodeBuilder \<times> heap" where
  "QrCodeBuilder_create overrides h =
     (\<lparr>builder_options = next_ref h\<rparr>,
      h\<lparr>objects := (objects h)(next_ref h := overrides default_qr_options),
        next_ref := Suc (next_ref h)\<rparr>)"

text \<open>A fluent setter: \<open>this.options.key = value; return this\<close>. The object is
  changed in place and the same builder is returned.\<close>

definition assign :: "QrCodeBuilder \<Rightarrow> (qr_options \<Rightarrow> qr_options) \<Rightarrow> heap \<Rightarrow> QrCodeBuilder \<times> heap" where
  "assign b f h =
     (b, h\<lparr>objects := (objects h)(builder_options b := f (objects h (builder_options b)))\<rparr>)"

datatype setter_call =
    Data string
  | Size rat
  | Margin rat
  | ErrorCorrectionLevel string
  | ForegroundColor "nat list"
  | BackgroundColor "nat list"
  | LogoPath "string option"
  | LogoSize rat
  | Label "string option"
  | LabelFont "string option" "int option"
  | Watermark "string option" jsval
  | Format string

text \<open>What each setter assigns; \<open>labelFont(fontPath, fontSize = 16)\<close> and
  \<open>watermark(watermark, position = 'center')\<close> have a defaulted second parameter.\<close>

fun assignment :: "setter_call \<Rightarrow> qr_options \<Rightarrow> qr_options" where
  "assignment (Data v) opts = opts\<lparr>qr_data := v\<rparr>"
| "assignment (Size v) opts = opts\<lparr>qr_size := v\<rparr>"
| "assignment (Margin v) opts = opts\<lparr>qr_margin := v\<rparr>"
| "assignment (ErrorCorrectionLevel v) opts = opts\<lparr>qr_errorCorrectionLevel := v\<rparr>"
| "assignment (ForegroundColor v) opts = opts\<lparr>qr_foregroundColor := v\<rparr>"
| "assignment (BackgroundColor v) opts = opts\<lparr>qr_backgroundColor := v\<rparr>"
| "assignment (LogoPath v) opts = opts\<lparr>qr_logoPath := v\<rparr>"
| "assignment (LogoSize v) opts = opts\<lparr>qr_logoSize := v\<rparr>"
| "assignment (Label v) opts = opts\<lparr>qr_label := v\<rparr>"
| "assignment (LabelFont fontPath fontSize) opts =
     opts\<lparr>qr_labelFont := fontPath,
          qr_labelFontSize := (case fontSize of None \<Rightarrow> 16 | Some n \<Rightarrow> n)\<rparr>"
| "assignment (Watermark w position) opts =
     opts\<lparr>qr_watermark := w, qr_watermarkPosition := default_arg position ''center''\<rparr>"
| "assignment (Format v) opts = opts\<lparr>qr_format := v\<rparr>"

definition call_setter :: "QrCodeBuilder \<Rightarrow> setter_call \<Rightarrow> heap \<Rightarrow> QrCodeBuilder \<times> heap" where
  "call_setter b c h = assign b (assignment c) h"

text \<open>A chain of setter calls, each completed before the next starts.\<close>

definition call_setters :: "QrCodeBuilder \<Rightarrow> setter_call list \<Rightarrow> heap \<Rightarrow> heap" where
  "call_setters b cs h = fold (\<lambda>c h'. snd (call_setter b c h')) cs h"

text \<open>\<open>build() { return new QrCodeResult(this.options); }\<close> with
  \<open>constructor(options) { this.options = options; }\<close>: the result holds the builder's
  own reference, and nothing is copied.\<close>

definition QrCodeBuilder_build :: "QrCodeBuilder \<Rightarrow> QrCodeResult" where
  "QrCodeBuilder_build b = \<lparr>result_options = builder_options b\<rparr>"

subsection \<open>The drawing surface and the external capabilities\<close>

datatype image = Image string

text \<open>A coordinate that comes from a resolved anchor is \<open>None\<close> when the anchor has no
  such field (\<open>undefined\<close>).\<close>

datatype draw_op =
    FillRect string rat rat rat rat
  | DrawImage image rat rat
  | DrawImageSized image "rat option" "rat option" rat rat
  | FillText string string string string "rat option" "rat option"

record canvas =
  c_width :: rat
  c_height :: rat
  fillStyle :: string
  font :: string
  textAlign :: string
  ops :: "draw_op list"

definition createCanvas :: "rat \<Rightarrow> rat \<Rightarrow> canvas" where
  "createCanvas w h =
     \<lparr>c_width = w, c_height = h, fillStyle = ''#000000'', font = ''10px sans-serif'',
      textAlign = ''start'', ops = []\<rparr>"

definition fillRect :: "rat \<Rightarrow> rat \<Rightarrow> rat \<Rightarrow> rat \<Rightarrow> canvas \<Rightarrow> canvas" where
  "fillRect px py w h c = c\<lparr>ops := ops c @ [FillRect (fillStyle c) px py w h]\<rparr>"

definition drawImage :: "image \<Rightarrow> rat \<Rightarrow> rat \<Rightarrow> canvas \<Rightarrow> canvas" where
  "drawImage img px py c = c\<lparr>ops := ops c @ [DrawImage img px py]\<rparr>"

definition drawImageSized :: "image \<Rightarrow> rat option \<Rightarrow> rat option \<Rightarrow> rat \<Rightarrow> rat \<Rightarrow> canvas \<Rightarrow> canvas" where
  "drawImageSized img px py w h c = c\<lparr>ops := ops c @ [DrawImageSized img px py w h]\<rparr>"

definition fillText :: "string \<Rightarrow> rat option \<Rightarrow> rat option \<Rightarrow> canvas \<Rightarrow> canvas" where
  "fillText txt px py c =
     c\<lparr>ops := ops c @ [FillText (font c) (fillStyle c) (textAlign c) txt px py]\<rparr>"

text \<open>The buffer \<open>canvas.toBuffer(mime)\<close> encodes: the surface's dimensions and what
  was drawn on it, in the requested format.\<close>

record buffer =
  buf_mime :: string
  buf_width :: rat
  buf_height :: rat
  buf_ops :: "draw_op list"

record qr_request =
  req_width :: rat
  req_margin :: rat
  req_dark :: string
  req_light :: string
  req_errorCorrectionLevel :: string

text \<open>
  The collaborators of the composition: the 2D symbol generator
  (\<open>QRCode.toDataURL\<close>), the image loader (\<open>loadImage\<close>) and the encoder behind
  \<open>canvas.toBuffer\<close>. Each may fail, \<open>Inl\<close> (or \<open>Some\<close>) of the error's message.
\<close>

record qr_world =
  toDataURL :: "string \<Rightarrow> qr_request \<Rightarrow> string + string"
  loadImage :: "string \<Rightarrow> string + image"
  toBuffer_error :: "string \<Rightarrow> string option"

definition toBuffer :: "qr_world \<Rightarrow> string \<Rightarrow> canvas \<Rightarrow> string + buffer" where
  "toBuffer W mime c =
     (case toBuffer_error W mime of
        Some msg \<Rightarrow> Inl msg
      | None \<Rightarrow> Inr \<lparr>buf_mime = mime, buf_width = c_width c, buf_height = c_height c,
                     buf_ops = ops c\<rparr>)"

subsection \<open>\<open>QrCodeResult\<close>\<close>

text \<open>\<open>c.toString(16).padStart(2, '0')\<close>\<close>

definition hex2 :: "nat \<Rightarrow> string" where
  "hex2 c = (let s = show_nat_radix 16 c in if length s < 2 then replicate (2 - length s) CHR ''0'' @ s else s)"

definition rgbToHex :: "nat list \<Rightarrow> string" where
  "rgbToHex rgb = CHR ''#'' # concat (map hex2 rgb)"

text \<open>\<open>if (this.options.logoPath)\<close>: \<open>null\<close> and the empty string are falsy.\<close>

definition given :: "string option \<Rightarrow> bool" where
  "given v = (case v of None \<Rightarrow> False | Some s \<Rightarrow> s \<noteq> [])"

definition text_of :: "string option \<Rightarrow> string" where
  "text_of v = (case v of None \<Rightarrow> [] | Some s \<Rightarrow> s)"

text \<open>What \<open>getWatermarkPosition\<close> returns: one of the table's \<open>{x, y}\<close> objects, or a
  member of \<open>Object.prototype\<close>, which has neither \<open>x\<close> nor \<open>y\<close>.\<close>

datatype anchor =
    Anchor rat rat
  | AnchorMember string

fun anchor_x :: "anchor \<Rightarrow> rat option" where
  "anchor_x (Anchor px py) = Some px"
| "anchor_x (AnchorMember k) = None"

fun anchor_y :: "anchor \<Rightarrow> rat option" where
  "anchor_y (Anchor px py) = Some py"
| "anchor_y (AnchorMember k) = None"

definition center :: "rat \<Rightarrow> rat \<Rightarrow> rat \<times> rat" where
  "center S s = ((S - s) / 2, (S - s) / 2)"

definition positions :: "rat \<Rightarrow> rat \<Rightarrow> (string \<times> rat \<times> rat) list" where
  "positions S s =
     [(''top-left'', (10, 10)),
      (''top-right'', (S - s - 10, 10)),
      (''bottom-left'', (10, S - s - 10)),
      (''bottom-right'', (S - s - 10, S - s - 10)),
      (''center'', center S s),
      (''top-center'', ((S - s) / 2, 10)),
      (''bottom-center'', ((S - s) / 2, S - s - 10)),
      (''left-center'', (10, (S - s) / 2)),
      (''right-center'', (S - s - 10, (S - s) / 2))]"

text \<open>\<open>positions[this.options.watermarkPosition] || positions.center\<close>\<close>

definition getWatermarkPosition :: "qr_options \<Rightarrow> rat \<Rightarrow> anchor" where
  "getWatermarkPosition opts s =
     (case js_get (positions (qr_size opts) s) (qr_watermarkPosition opts) of
        Own (px, py) \<Rightarrow> Anchor px py
      | Inherited k \<Rightarrow> AnchorMember k
      | Absent \<Rightarrow> (case center (qr_size opts) s of (px, py) \<Rightarrow> Anchor px py))"

text \<open>\<open>addLogo\<close>: the whole body is inside \<open>try\<close>; a failure is passed to
  \<open>console.warn\<close> and the surface is left as it was. The result is the surface and
  the warnings printed.\<close>

definition addLogo :: "qr_world \<Rightarrow> qr_options \<Rightarrow> canvas \<Rightarrow> canvas \<times> string list" where
  "addLogo W opts ctx =
     (case loadImage W (text_of (qr_logoPath opts)) of
        Inl msg \<Rightarrow> (ctx, [''Failed to add logo: '' @ msg])
      | Inr logoImage \<Rightarrow>
          let logoSize = (qr_size opts * qr_logoSize opts) / 100;
              logoX = (qr_size opts - logoSize) / 2;
              logoY = (qr_size opts - logoSize) / 2;
              ctx1 = ctx\<lparr>fillStyle := rgbToHex (qr_backgroundColor opts)\<rparr>;
              ctx2 = fillRect (logoX - 5) (logoY - 5) (logoSize + 10) (logoSize + 10) ctx1
          in (drawImageSized logoImage (Some logoX) (Some logoY) logoSize logoSize ctx2, []))"

text \<open>\<open>addWatermark\<close>: a watermark containing both \<open>.\<close> and \<open>/\<close> is an image
  path, any other a text.\<close>

definition addWatermark :: "qr_world \<Rightarrow> qr_options \<Rightarrow> canvas \<Rightarrow> canvas \<times> string list" where
  "addWatermark W opts ctx =
     (let watermark = text_of (qr_watermark opts) in
      if List.member watermark CHR ''.'' \<and> List.member watermark CHR ''/''
      then
        (case loadImage W watermark of
           Inl msg \<Rightarrow> (ctx, [''Failed to add watermark: '' @ msg])
         | Inr watermarkImage \<Rightarrow>
             let watermarkSize = qr_size opts / 4;
                 position = getWatermarkPosition opts watermarkSize
             in (drawImageSized watermarkImage (anchor_x position) (anchor_y position)
                   watermarkSize watermarkSize ctx, []))
      else
        let ctx1 = ctx\<lparr>font := show_int (qr_labelFontSize opts) @ ''px Arial'',
                       fillStyle := rgbToHex (qr_foregroundColor opts),
                       textAlign := ''center''\<rparr>;
            position = getWatermarkPosition opts 0
        in (fillText watermark (anchor_x position) (anchor_y position) ctx1, []))"

definition addLabel :: "qr_options \<Rightarrow> canvas \<Rightarrow> canvas" where
  "addLabel opts ctx =
     (let ctx1 = ctx\<lparr>font := show_int (qr_labelFontSize opts) @ ''px Arial'',
                      fillStyle := rgbToHex (qr_foregroundColor opts),
                      textAlign := ''center''\<rparr>;
          labelY = qr_size opts - 10
      in fillText (text_of (qr_label opts)) (Some (qr_size opts / 2)) (Some labelY) ctx1)"

text \<open>
  The body of \<open>generate\<close> on a configuration: the promise resolves with the buffer
  (\<open>Inr\<close>) or rejects with \<open>QR code generation failed: ...\<close> (\<open>Inl\<close>); the second
  component lists the warnings printed on the way. \<open>symbol_request\<close> is the options
  object handed to \<open>QRCode.toDataURL\<close>.
\<close>

definition symbol_request :: "qr_options \<Rightarrow> qr_request" where
  "symbol_request opts =
     \<lparr>req_width = qr_size opts - qr_margin opts * 2, req_margin = 0,
      req_dark = rgbToHex (qr_foregroundColor opts),
      req_light = rgbToHex (qr_backgroundColor opts),
      req_errorCorrectionLevel = qr_errorCorrectionLevel opts\<rparr>"

definition compose :: "qr_world \<Rightarrow> qr_options \<Rightarrow> (string + buffer) \<times> string list" where
  "compose W opts =
     (let canvas0 = createCanvas (qr_size opts) (qr_size opts);
          ctx0 = fillRect 0 0 (qr_size opts) (qr_size opts)
                   (canvas0\<lparr>fillStyle := rgbToHex (qr_backgroundColor opts)\<rparr>)
      in case toDataURL W (qr_data opts) (symbol_request opts) of
           Inl msg \<Rightarrow> (Inl (''QR code generation failed: '' @ msg), [])
         | Inr qrCodeDataURL \<Rightarrow>
             (case loadImage W qrCodeDataURL of
                Inl msg \<Rightarrow> (Inl (''QR code generation failed: '' @ msg), [])
              | Inr qrCodeImage \<Rightarrow>
                  let ctx1 = drawImage qrCodeImage (qr_margin opts) (qr_margin opts) ctx0;
                      (ctx2, warned1) =
                        (if given (qr_logoPath opts) then addLogo W opts ctx1 else (ctx1, []));
                      (ctx3, warned2) =
                        (if given (qr_watermark opts) then addWatermark W opts ctx2 else (ctx2, []));
                      ctx4 = (if given (qr_label opts) then addLabel opts ctx3 else ctx3)
                  in case toBuffer W (''image/'' @ qr_format opts) ctx4 of
                       Inl msg \<Rightarrow> (Inl (''QR code generation failed: '' @ msg), warned1 @ warned2)
                     | Inr buf \<Rightarrow> (Inr buf, warned1 @ warned2)))"

text \<open>
  \<open>generate\<close> reads \<open>this.options\<close> at its start and again after each \<open>await\<close>. Here
  the store is the same at all these reads: no setter runs while a generation is in
  flight.
\<close>

definition QrCodeResult_generate :: "qr_world \<Rightarrow> heap \<Rightarrow> QrCodeResult \<Rightarrow> (string + buffer) \<times> string list" where
  "QrCodeResult_generate W h r = compose W (objects h (result_options r))"

text \<open>\<open>async getString() { return await this.generate(); }\<close>\<close>

definition QrCodeResult_getString :: "qr_world \<Rightarrow> heap \<Rightarrow> QrCodeResult \<Rightarrow> (string + buffer) \<times> string list" where
  "QrCodeResult_getString W h r = QrCodeResult_generate W h r"

text \<open>\<open>BarcodeGenerator.getWatermarkPositions()\<close>\<close>

definition getWatermarkPositions :: "string list" where
  "getWatermarkPositions =
     [''top-left'', ''top-right'', ''bottom-left'', ''bottom-right'', ''center'',
      ''top-center'', ''bottom-center'', ''left-center'', ''right-center'']"

text \<open>A sample environment: the symbol generator answers with a data URL, data URLs
  load, and no file exists behind any other path.\<close>

definition sample_world :: qr_world where
  "sample_world =
     \<lparr>toDataURL = (\<lambda>d req. Inr (''data:image/png;base64,'' @ d)),
      loadImage = (\<lambda>src. if take 5 src = ''data:'' then Inr (Image src)
                          else Inl (''ENOENT: no such file or directory, open '' @ src)),
      toBuffer_error = (\<lambda>mime. None)\<rparr>"

section \<open>Renderers\<close>

text \<open>
  \<open>renderOptions = { ...this.defaultOptions, ...options }\<close>: the fourteen options every
  renderer has a default for. The markup and document renderers have two more each.
\<close>

record renderOptions =
  ro_width :: int
  ro_height :: int
  ro_displayValue :: bool
  ro_fontSize :: int
  ro_textAlign :: string
  ro_textPosition :: string
  ro_textMargin :: int
  ro_background :: string
  ro_lineColor :: string
  ro_margin :: int
  ro_marginTop :: int
  ro_marginBottom :: int
  ro_marginLeft :: int
  ro_marginRight :: int

definition or_else :: "'a option \<Rightarrow> 'a \<Rightarrow> 'a" where
  "or_else v d = (case v of Some x \<Rightarrow> x | None \<Rightarrow> d)"

definition merge_options :: "render_options \<Rightarrow> renderOptions" where
  "merge_options options =
     \<lparr>ro_width = or_else (opt_width options) 2,
      ro_height = or_else (opt_height options) 100,
      ro_displayValue = or_else (opt_displayValue options) True,
      ro_fontSize = or_else (opt_fontSize options) 20,
      ro_textAlign = or_else (opt_textAlign options) ''center'',
      ro_textPosition = or_else (opt_textPosition options) ''bottom'',
      ro_textMargin = or_else (opt_textMargin options) 2,
      ro_background = or_else (opt_background options) ''#ffffff'',
      ro_lineColor = or_else (opt_lineColor options) ''#000000'',
      ro_margin = or_else (opt_margin options) 10,
      ro_marginTop = or_else (opt_marginTop options) 10,
      ro_marginBottom = or_else (opt_marginBottom options) 10,
      ro_marginLeft = or_else (opt_marginLeft options) 10,
      ro_marginRight = or_else (opt_marginRight options) 10\<rparr>"

text \<open>\<open>mapBarcodeType\<close>: \<open>typeMap[type] || "CODE128"\<close>. The format handed to the symbol
  generator is a string, or the member of \<open>Object.prototype\<close> the key names.\<close>

definition typeMap :: "(string \<times> string) list" where
  "typeMap =
     [(''code128'', ''CODE128''), (''code128a'', ''CODE128A''), (''code128b'', ''CODE128B''),
      (''code128c'', ''CODE128C''), (''code128auto'', ''CODE128''), (''code39'', ''CODE39''),
      (''code39extended'', ''CODE39''), (''code39checksum'', ''CODE39''),
      (''code39auto'', ''CODE39''), (''code93'', ''CODE93''), (''ean13'', ''EAN13''),
      (''ean8'', ''EAN8''), (''upca'', ''UPC''), (''upce'', ''UPC''),
      (''codabar'', ''codabar''), (''code11'', ''CODE11''), (''msi'', ''MSI''),
      (''pharmazentral'', ''pharmazentral''), (''interleaved25'', ''ITF''),
      (''standard25'', ''STD25'')]"

definition mapBarcodeType :: "string \<Rightarrow> jsval" where
  "mapBarcodeType type =
     (case js_get typeMap (JStr type) of
        Own f \<Rightarrow> JStr f
      | Inherited k \<Rightarrow> JObj
      | Absent \<Rightarrow> JStr ''CODE128'')"

subsection \<open>What the renderers call\<close>

datatype pdf_op =
    Rect int int int int
  | FillColor string
  | Fill
  | FontSize int
  | Text string int int string

record pdf_setup =
  page_width :: int
  page_height :: int
  margin_top :: int
  margin_bottom :: int
  margin_left :: int
  margin_right :: int

text \<open>
  The environment of a render call: the clock (\<open>Date.now()\<close>), the random source
  (\<open>Math.random().toString(36)\<close>), and the external libraries. \<open>JsBarcode_png\<close> stands
  for the raster path (canvas of 400 by 200, background fill, \<open>JsBarcode\<close>,
  \<open>toBuffer("image/png")\<close>) and \<open>JsBarcode_svg\<close> for the vector renderer's first
  attempt (\<open>document.createElement\<close>, \<open>JsBarcode\<close>, \<open>toSVG\<close>); each yields its output
  or the message of what it threw. \<open>PDFDocument_error\<close> is what
  \<open>new PDFDocument\<close> throws, if it does, and \<open>pdf_output\<close> what the document's
  stream ends with after the recorded operations: the bytes, or an error.
\<close>

record render_world =
  now :: nat
  random_base36 :: string
  JsBarcode_png :: "string \<Rightarrow> jsval \<Rightarrow> renderOptions \<Rightarrow> string + nat list"
  JsBarcode_svg :: "string \<Rightarrow> jsval \<Rightarrow> renderOptions \<Rightarrow> string + string"
  PDFDocument_error :: "pdf_setup \<Rightarrow> string option"
  pdf_output :: "pdf_setup \<Rightarrow> pdf_op list \<Rightarrow> string + nat list"

text \<open>An artifact: a raster buffer, a markup string, or the promise of the document's
  bytes (settled with the bytes or rejected with a message).\<close>

datatype artifact =
    PngBuffer "nat list"
  | Markup string
  | PdfPromise "string + nat list"

subsection \<open>Raster: \<open>PNGRenderer\<close>\<close>

definition PNGRenderer_render :: "render_world \<Rightarrow> string \<Rightarrow> string \<Rightarrow> render_options \<Rightarrow> string + artifact" where
  "PNGRenderer_render W data type options =
     (case JsBarcode_png W data (mapBarcodeType type) (merge_options options) of
        Inl msg \<Rightarrow> Inl (''PNG rendering failed: '' @ msg)
      | Inr bytes \<Rightarrow> Inr (PngBuffer bytes))"

subsection \<open>Vector: \<open>SVGRenderer\<close>\<close>

text \<open>A number that is an integer or an integer and a half, given as twice its value,
  printed as a template literal prints it.\<close>

definition show_half :: "int \<Rightarrow> string" where
  "show_half k =
     (if k mod 2 = 0 then show_int (k div 2)
      else (if k < 0 then ''-'' else []) @ show_nat (nat \<bar>k\<bar> div 2) @ ''.5'')"

definition createQRCodeSVG :: "string \<Rightarrow> int \<Rightarrow> int \<Rightarrow> renderOptions \<Rightarrow> string" where
  \<open>createQRCodeSVG data width height options =
     (let size = min width height - 40 in
      ''<rect x="'' @ show_half (width - size) @ ''" y="'' @ show_half (height - size)
      @ ''" width="'' @ show_int size @ ''" height="'' @ show_int size
      @ ''" fill="'' @ ro_lineColor options @ ''" stroke="'' @ ro_lineColor options
      @ ''" stroke-width="1"/>'')\<close>

text \<open>The bars of one character: \<open>(char % 5) + 1\<close> rectangles, \<open>currentX\<close> advancing by
  \<open>barWidth * 2\<close> after each.\<close>

definition barCount :: "char \<Rightarrow> nat" where
  "barCount c = code_unit c mod 5 + 1"

definition svg_bar :: "int \<Rightarrow> int \<Rightarrow> string \<Rightarrow> string" where
  \<open>svg_bar currentX barHeight lineColor =
     ''<rect x="'' @ show_int currentX @ ''" y="10" width="2" height="'' @ show_int barHeight
     @ ''" fill="'' @ lineColor @ ''"/>''\<close>

fun svg_bars :: "int \<Rightarrow> int \<Rightarrow> string \<Rightarrow> string \<Rightarrow> string" where
  "svg_bars currentX barHeight lineColor [] = []"
| "svg_bars currentX barHeight lineColor (c # cs) =
     concat (map (\<lambda>j. svg_bar (currentX + 4 * int j) barHeight lineColor) [0..<barCount c])
     @ svg_bars (currentX + 4 * int (barCount c)) barHeight lineColor cs"

definition createLinearBarcodeSVG :: "string \<Rightarrow> int \<Rightarrow> int \<Rightarrow> renderOptions \<Rightarrow> string" where
  "createLinearBarcodeSVG data width height options =
     (let barHeight = height - (if ro_displayValue options then 30 else 0) in
      svg_bars 20 barHeight (ro_lineColor options) data)"

definition createManualSVG :: "string \<Rightarrow> string \<Rightarrow> render_options \<Rightarrow> string" where
  \<open>createManualSVG data type options =
     (let renderOptions = merge_options options;
          width = 300;
          height = ro_height renderOptions + (if ro_displayValue renderOptions then 30 else 0)
      in ''<svg width="'' @ show_int width @ ''" height="'' @ show_int height
         @ ''" xmlns="http://www.w3.org/2000/svg">''
         @ ''<rect width="'' @ show_int width @ ''" height="'' @ show_int height
         @ ''" fill="'' @ ro_background renderOptions @ ''"/>''
         @ (if type = ''qrcode'' then createQRCodeSVG data width height renderOptions
            else createLinearBarcodeSVG data width height renderOptions)
         @ (if ro_displayValue renderOptions
            then ''<text x="'' @ show_half width @ ''" y="'' @ show_int (height - 5)
                 @ ''" text-anchor="middle" font-family="Arial" font-size="''
                 @ show_int (ro_fontSize renderOptions) @ ''" fill="''
                 @ ro_lineColor renderOptions @ ''">'' @ data @ ''</text>''
            else [])
         @ ''</svg>'')\<close>

text \<open>\<open>render\<close> never throws: whatever the first attempt throws, the \<open>catch\<close> returns
  the manual construction.\<close>

definition SVGRenderer_render :: "render_world \<Rightarrow> string \<Rightarrow> string \<Rightarrow> render_options \<Rightarrow> string + artifact" where
  "SVGRenderer_render W data type options =
     (case JsBarcode_svg W data (mapBarcodeType type) (merge_options options) of
        Inr svgString \<Rightarrow> Inr (Markup svgString)
      | Inl msg \<Rightarrow> Inr (Markup (createManualSVG data type options)))"

subsection \<open>Markup: \<open>HTMLRenderer\<close>\<close>

record html_options = renderOptions +
  ro_className :: "string"
  ro_id :: "string option"

definition html_merge_options :: "render_options \<Rightarrow> html_options" where
  "html_merge_options options =
     renderOptions.extend (merge_options options)
       \<lparr>ro_className = or_else (opt_className options) ''barcode'', ro_id = opt_id options\<rparr>"

definition getContainerStyles :: "html_options \<Rightarrow> string" where
  "getContainerStyles options =
     ''\<newline>      display: inline-block;''
     @ ''\<newline>      background: '' @ ro_background options @ '';''
     @ ''\<newline>      padding: '' @ show_int (ro_margin options) @ ''px;''
     @ ''\<newline>      margin: '' @ show_int (ro_marginTop options) @ ''px ''
       @ show_int (ro_marginRight options) @ ''px '' @ show_int (ro_marginBottom options)
       @ ''px '' @ show_int (ro_marginLeft options) @ ''px;''
     @ ''\<newline>      border: 1px solid #ccc;''
     @ ''\<newline>      text-align: center;''
     @ ''\<newline>    ''"

definition getTextStyles :: "html_options \<Rightarrow> string" where
  "getTextStyles options =
     ''\<newline>      font-family: Arial, sans-serif;''
     @ ''\<newline>      font-size: '' @ show_int (ro_fontSize options) @ ''px;''
     @ ''\<newline>      color: '' @ ro_lineColor options @ '';''
     @ ''\<newline>      text-align: '' @ ro_textAlign options @ '';''
     @ ''\<newline>      margin-top: '' @ show_int (ro_textMargin options) @ ''px;''
     @ ''\<newline>    ''"

definition getCSSStyles :: "string \<Rightarrow> string" where
  "getCSSStyles containerId =
     ''\<newline>      <style>''
     @ ''\<newline>        #'' @ containerId @ '' {''
     @ ''\<newline>          font-family: Arial, sans-serif;''
     @ ''\<newline>        }''
     @ ''\<newline>        #'' @ containerId @ '' .barcode-text {''
     @ ''\<newline>          font-weight: bold;''
     @ ''\<newline>        }''
     @ ''\<newline>        #'' @ containerId @ '' .qr-code {''
     @ ''\<newline>          margin: 0 auto;''
     @ ''\<newline>        }''
     @ ''\<newline>        #'' @ containerId @ '' .linear-barcode {''
     @ ''\<newline>          justify-content: center;''
     @ ''\<newline>        }''
     @ ''\<newline>      </style>''
     @ ''\<newline>    ''"

text \<open>\<open>(data.charCodeAt(i % data.length) + i) % 2 === 0\<close>; on the empty string the
  index and the code unit are \<open>NaN\<close>, and the comparison is false.\<close>

definition shouldFill :: "string \<Rightarrow> nat \<Rightarrow> nat \<Rightarrow> bool" where
  "shouldFill data i offset =
     (if data = [] then False
      else (code_unit (data ! (i mod length data)) + offset) mod 2 = 0)"

definition createQRCodeHTML :: "string \<Rightarrow> html_options \<Rightarrow> string" where
  \<open>createQRCodeHTML data options =
     ''<div class="qr-code" style="width: 200px; height: 200px; display: grid; grid-template-columns: repeat(20, 1fr); gap: 1px; background: ''
     @ ro_background options @ ''; padding: 10px;">''
     @ concat (map (\<lambda>i. ''<div style="background-color: ''
                          @ (if shouldFill data i i then ro_lineColor options
                             else ro_background options)
                          @ ''; width: 100%; height: 100%;"></div>'')
                   [0..<20 * 20])
     @ ''</div>''\<close>

text \<open>\<open>options.width || 2\<close> and \<open>options.height || 100\<close>: zero is falsy.\<close>

definition nonzero_or :: "int \<Rightarrow> int \<Rightarrow> int" where
  "nonzero_or v d = (if v = 0 then d else v)"

definition html_bar :: "int \<Rightarrow> int \<Rightarrow> string \<Rightarrow> string" where
  \<open>html_bar barWidth barHeight lineColor =
     ''<div style="width: '' @ show_int barWidth @ ''px; height: '' @ show_int barHeight
     @ ''px; background-color: '' @ lineColor @ ''; margin-right: '' @ show_int barWidth
     @ ''px;"></div>''\<close>

definition createLinearBarcodeHTML :: "string \<Rightarrow> string \<Rightarrow> html_options \<Rightarrow> string" where
  \<open>createLinearBarcodeHTML data type options =
     (let barWidth = nonzero_or (ro_width options) 2;
          barHeight = nonzero_or (ro_height options) 100
      in ''<div class="linear-barcode" style="display: flex; align-items: flex-start; background: ''
         @ ro_background options @ ''; padding: 10px;">''
         @ concat (map (\<lambda>c. concat (replicate (barCount c)
                                        (html_bar barWidth barHeight (ro_lineColor options))))
                       data)
         @ ''</div>'')\<close>

text \<open>\<open>options.id || `barcode-${Date.now()}-${Math.random().toString(36).substr(2, 9)}`\<close>\<close>

definition containerId :: "render_world \<Rightarrow> html_options \<Rightarrow> string" where
  "containerId W options =
     (if given (ro_id options) then text_of (ro_id options)
      else ''barcode-'' @ show_nat (now W) @ ''-'' @ take 9 (drop 2 (random_base36 W)))"

definition createHTMLStructure :: "render_world \<Rightarrow> string \<Rightarrow> string \<Rightarrow> html_options \<Rightarrow> string" where
  \<open>createHTMLStructure W data type options =
     (let containerId = containerId W options;
          containerClass = (if ro_className options = [] then ''barcode'' else ro_className options)
      in ''<div id="'' @ containerId @ ''" class="'' @ containerClass @ ''" style="''
         @ getContainerStyles options @ ''">''
         @ (if type = ''qrcode'' then createQRCodeHTML data options
            else createLinearBarcodeHTML data type options)
         @ (if ro_displayValue options
            then ''<div class="barcode-text" style="'' @ getTextStyles options @ ''">''
                 @ data @ ''</div>''
            else [])
         @ ''</div>''
         @ getCSSStyles containerId)\<close>

definition HTMLRenderer_render :: "render_world \<Rightarrow> string \<Rightarrow> string \<Rightarrow> render_options \<Rightarrow> string + artifact" where
  "HTMLRenderer_render W data type options =
     Inr (Markup (createHTMLStructure W data type (html_merge_options options)))"

subsection \<open>Document: \<open>PDFRenderer\<close>\<close>

record pdf_options = renderOptions +
  ro_pageWidth :: int
  ro_pageHeight :: int

definition pdf_merge_options :: "render_options \<Rightarrow> pdf_options" where
  "pdf_merge_options options =
     renderOptions.extend (merge_options options)
       \<lparr>ro_pageWidth = or_else (opt_pageWidth options) 612,
        ro_pageHeight = or_else (opt_pageHeight options) 792\<rparr>"

text \<open>The cells of the grid, row by row: a filled cell is a rectangle, its colour and
  a fill.\<close>

definition addQRCodeToPDF :: "string \<Rightarrow> int \<Rightarrow> int \<Rightarrow> pdf_options \<Rightarrow> pdf_op list" where
  "addQRCodeToPDF data px py options =
     concat (map (\<lambda>row. concat (map (\<lambda>col.
        if shouldFill data (row * 20 + col) (row + col)
        then [Rect (px + int col * 10) (py + int row * 10) 10 10,
              FillColor (ro_lineColor options), Fill]
        else []) [0..<20])) [0..<20])"

fun pdf_bars :: "int \<Rightarrow> int \<Rightarrow> int \<Rightarrow> pdf_options \<Rightarrow> string \<Rightarrow> pdf_op list" where
  "pdf_bars currentX py barWidth options [] = []"
| "pdf_bars currentX py barWidth options (c # cs) =
     concat (map (\<lambda>j. [Rect (currentX + barWidth * 2 * int j) py barWidth (ro_height options),
                        FillColor (ro_lineColor options), Fill]) [0..<barCount c])
     @ pdf_bars (currentX + barWidth * 2 * int (barCount c)) py barWidth options cs"

definition addLinearBarcodeToPDF :: "string \<Rightarrow> string \<Rightarrow> int \<Rightarrow> int \<Rightarrow> pdf_options \<Rightarrow> pdf_op list" where
  "addLinearBarcodeToPDF data type px py options =
     pdf_bars px py (nonzero_or (ro_width options) 2) options data"

definition addBarcodeToPDF :: "string \<Rightarrow> string \<Rightarrow> pdf_options \<Rightarrow> pdf_op list" where
  "addBarcodeToPDF data type options =
     (let px = ro_marginLeft options; py = ro_marginTop options in
      [Rect 0 0 (ro_pageWidth options) (ro_pageHeight options),
       FillColor (ro_background options), Fill]
      @ (if type = ''qrcode'' then addQRCodeToPDF data px py options
         else addLinearBarcodeToPDF data type px py options)
      @ (if ro_displayValue options
         then [FontSize (ro_fontSize options), FillColor (ro_lineColor options),
               Text data px (py + ro_height options + ro_textMargin options)
                 (ro_textAlign options)]
         else []))"

text \<open>\<open>render\<close> returns a promise; only what \<open>new PDFDocument\<close> throws is caught and
  thrown again with the renderer's prefix.\<close>

definition PDFRenderer_render :: "render_world \<Rightarrow> string \<Rightarrow> string \<Rightarrow> render_options \<Rightarrow> string + artifact" where
  "PDFRenderer_render W data type options =
     (let renderOptions = pdf_merge_options options;
          setup = \<lparr>page_width = ro_pageWidth renderOptions,
                   page_height = ro_pageHeight renderOptions,
                   margin_top = ro_marginTop renderOptions,
                   margin_bottom = ro_marginBottom renderOptions,
                   margin_left = ro_marginLeft renderOptions,
                   margin_right = ro_marginRight renderOptions\<rparr>
      in case PDFDocument_error W setup of
           Some msg \<Rightarrow> Inl (''PDF rendering failed: '' @ msg)
         | None \<Rightarrow> Inr (PdfPromise (pdf_output W setup (addBarcodeToPDF data type renderOptions))))"

text \<open>The renderers the service constructs.\<close>

definition service_renderers :: "render_world \<Rightarrow> artifact renderers" where
  "service_renderers W =
     \<lparr>png_renderer = PNGRenderer_render W, svg_renderer = SVGRenderer_render W,
      html_renderer = HTMLRenderer_render W, pdf_renderer = PDFRenderer_render W\<rparr>"

text \<open>A sample environment under Node at clock \<open>t\<close> and random string \<open>r\<close>:
  \<open>document\<close> is not defined, and the document's bytes carry the time of creation.\<close>

definition node_world :: "nat \<Rightarrow> string \<Rightarrow> render_world" where
  "node_world t r =
     \<lparr>now = t, random_base36 = r,
      JsBarcode_png = (\<lambda>data format options. Inr (map code_unit data)),
      JsBarcode_svg = (\<lambda>data format options. Inl ''document is not defined''),
      PDFDocument_error = (\<lambda>setup. None),
      pdf_output = (\<lambda>setup drawn. Inr [t, length drawn])\<rparr>"

section \<open>Reference definitions for the checksum\<close>

text \<open>
  The modulo-10 check digit written as a formula: the weighted sum of the digit values
  over the positions, 0-indexed from the left, for a given assignment of weights.
\<close>

definition digit_value :: "char \<Rightarrow> nat" where
  "digit_value c = code_unit c - 48"

definition mod10_check_digit :: "(nat \<Rightarrow> nat) \<Rightarrow> string \<Rightarrow> nat" where
  "mod10_check_digit w ds = (10 - (\<Sum>i<length ds. w i * digit_value (ds ! i)) mod 10) mod 10"

text \<open>The weights as the specification words them: odd positions weight 1, even
  positions weight 3.\<close>

definition spec_weight :: "nat \<Rightarrow> nat" where
  "spec_weight i = (if odd i then 1 else 3)"

text \<open>The weights of \<open>calculateEANCheckDigit\<close>: \<open>i % 2 === 0 ? digit : digit * 3\<close>.\<close>

definition code_weight :: "nat \<Rightarrow> nat" where
  "code_weight i = (if even i then 1 else 3)"

text \<open>The object \<open>validate\<close> returns on success.\<close>

definition accepted :: "string \<Rightarrow> string \<Rightarrow> string \<Rightarrow> validation" where
  "accepted d t cs = \<lparr>valid = True, error = None, v_data = Some d, v_type = Some t,
                      v_length = Some (length d), v_charset = Some cs\<rparr>"

section \<open>Reference definitions for the renderers and the builder\<close>

text \<open>The batch of the test suite: a valid item followed by one with empty data.\<close>

definition sample_items :: "batch_item list" where
  "sample_items =
     [\<lparr>item_data = JStr ''1234567890'', item_type = JStr ''code128'',
       item_format = JStr ''png'', item_options = None\<rparr>,
      \<lparr>item_data = JStr [], item_type = JStr ''code128'',
       item_format = JStr ''png'', item_options = None\<rparr>]"

text \<open>\<open>QrCodeBuilder.create({ data: "https://example.com" })\<close> in an empty store.\<close>

definition sample_builder :: "QrCodeBuilder \<times> heap" where
  "sample_builder =
     QrCodeBuilder_create (\<lambda>opts. opts\<lparr>qr_data := ''https://example.com''\<rparr>) empty_heap"

section \<open>Properties of the validator\<close>

lemma ean_sum_digits:
  "list_all is_digit ds \<Longrightarrow>
   ean_sum i (Some s) ds =
     Some (s + (\<Sum>j<length ds. code_weight (i + j) * digit_value (ds ! j)))"
proof (induction ds arbitrary: i s)
  case Nil
  then show ?case by simp
next
  case (Cons c cs)
  then have c: "is_digit c" and cs: "list_all is_digit cs" by simp_all
  have step:
    "num_add (Some s) (if i mod 2 = 0 then parseInt_char c else num_times (parseInt_char c) 3)
       = Some (s + code_weight i * digit_value c)"
    using c
    by (simp add: num_add_def num_times_def parseInt_char_def code_weight_def
        digit_value_def even_iff_mod_2_eq_zero)
  show ?case
    using Cons.IH[OF cs, of "i + 1" "s + code_weight i * digit_value c"]
    by (simp add: step sum.lessThan_Suc_shift del: sum.lessThan_Suc)
qed

lemma calculateEANCheckDigit_digits:
  "list_all is_digit ds \<Longrightarrow>
   calculateEANCheckDigit ds = Some (mod10_check_digit code_weight ds)"
  using ean_sum_digits[of ds 0 0]
  by (simp add: calculateEANCheckDigit_def mod10_check_digit_def)

lemma isValid_ean13: "isValid (JStr ''ean13'')"
  by code_simp

lemma getConfig_ean13:
  "getConfig (JStr ''ean13'') = Config \<lparr>minLength = 12, maxLength = 13, charset = ''Numeric''\<rparr>"
  by code_simp

lemma validateByType_ean13: "validateByType d (JStr ''ean13'') = validateEAN13 d"
  by (simp add: validateByType_def)

lemma validateEAN13_digits:
  assumes "list_all is_digit d" "length d = 13"
  shows "validateEAN13 d =
           (if digit_value (d ! 12) \<noteq> mod10_check_digit code_weight (take 12 d)
            then invalid ''Invalid EAN-13 check digit'' else ok)"
proof -
  have "is_digit (d ! 12)"
    using assms by (simp add: list_all_length)
  then have p: "parseInt_char (d ! 12) = Some (digit_value (d ! 12))"
    by (simp add: parseInt_char_def digit_value_def)
  have "list_all is_digit (take 12 d)"
    using assms(1) by (simp add: list_all_length)
  then have c: "calculateEANCheckDigit (take 12 d) = Some (mod10_check_digit code_weight (take 12 d))"
    by (rule calculateEANCheckDigit_digits)
  show ?thesis
    using assms by (simp add: validateEAN13_def digits_pattern_def p c strict_neq_def)
qed

text \<open>
  C1, as the specification states it: \<open>checkDigit("123456789012") == 2\<close>, and
  \<open>1234567890123\<close> validates. The routine returns 8 for these twelve digits, so the
  stated value is not what the code computes, and \<open>1234567890123\<close> is rejected.
\<close>

theorem ean13_regression_counterexample:
  "calculateEANCheckDigit ''123456789012'' \<noteq> Some 2
   \<and> \<not> valid (validate (JStr ''1234567890123'') (JStr ''ean13''))"
  by code_simp

text \<open>
  C1, amended: the check digit of \<open>123456789012\<close> is 8; consequently
  \<open>validate("1234567890128", "ean13")\<close> is accepted, and
  \<open>validate("1234567890120", "ean13")\<close> is rejected with the check-digit error.
\<close>

theorem ean13_regression:
  "calculateEANCheckDigit ''123456789012'' = Some 8
   \<and> validate (JStr ''1234567890128'') (JStr ''ean13'')
       = accepted ''1234567890128'' ''ean13'' ''Numeric''
   \<and> validate (JStr ''1234567890120'') (JStr ''ean13'')
       = invalid ''Invalid EAN-13 check digit''"
  by code_simp

theorem ean13_regression_witness:
  "valid (validate (JStr ''1234567890128'') (JStr ''ean13''))
   \<and> error (validate (JStr ''1234567890120'') (JStr ''ean13''))
       = Some ''Invalid EAN-13 check digit''"
  using ean13_regression by (simp add: accepted_def invalid_def)

text \<open>
  C2, as the specification states it, weights odd positions 1 and even positions 3.
  On \<open>1234567890128\<close> that rule gives check digit 0, which differs from the thirteenth
  digit 8, yet validation accepts the input.
\<close>

theorem ean_checksum_counterexample:
  "valid (validate (JStr ''1234567890128'') (JStr ''ean13''))
   \<and> digit_value (''1234567890128'' ! 12)
       \<noteq> mod10_check_digit spec_weight (take 12 ''1234567890128'')"
  by code_simp

text \<open>
  C2, amended: for every 13-digit EAN-13 input, validation recomputes the check digit
  over the first 12 digits by the modulo-10 weighted sum in which, 0-indexed from the
  left, even positions have weight 1 and odd positions have weight 3, and fails with the
  check-digit error exactly when the 13th digit differs from it; otherwise the input is
  accepted.
\<close>

theorem ean_checksum_rule:
  assumes "list_all is_digit d" and "length d = 13"
  shows "validate (JStr d) (JStr ''ean13'') =
           (if digit_value (d ! 12) \<noteq> mod10_check_digit code_weight (take 12 d)
            then invalid ''Invalid EAN-13 check digit''
            else accepted d ''ean13'' ''Numeric'')"
proof -
  have ne: "d \<noteq> []"
    using assms(2) by auto
  show ?thesis
    using assms(2) ne
    by (simp add: validate_def isValid_ean13 getConfig_ean13 too_short_def too_long_def
        validateByType_ean13 validateEAN13_digits[OF assms] invalid_def ok_def
        accepted_def Let_def
        del: isValid.simps)
qed

theorem ean_checksum_rule_witness:
  "list_all is_digit ''1234567890128'' \<and> length ''1234567890128'' = 13
   \<and> validate (JStr ''1234567890128'') (JStr ''ean13'')
       = accepted ''1234567890128'' ''ean13'' ''Numeric''
   \<and> list_all is_digit ''1234567890120'' \<and> length ''1234567890120'' = 13
   \<and> validate (JStr ''1234567890120'') (JStr ''ean13'') = invalid ''Invalid EAN-13 check digit''"
proof -
  have a: "list_all is_digit ''1234567890128''" "length ''1234567890128'' = 13"
    by code_simp+
  have b: "list_all is_digit ''1234567890120''" "length ''1234567890120'' = 13"
    by code_simp+
  have c: "digit_value (''1234567890128'' ! 12)
             = mod10_check_digit code_weight (take 12 ''1234567890128'')"
    by code_simp
  have d: "digit_value (''1234567890120'' ! 12)
             \<noteq> mod10_check_digit code_weight (take 12 ''1234567890120'')"
    by code_simp
  show ?thesis
    using ean_checksum_rule[OF a] ean_checksum_rule[OF b] a b c d by simp
qed

text \<open>
  The 8-digit case is no part of the amended claim. For seven digits the weights of the
  specification's wording are those of the EAN-8 standard, so that \<open>7351353\<close> has check
  digit 7; \<open>validateEAN8\<close> calls the same routine as \<open>validateEAN13\<close>, which gives 5, and
  the number \<open>73513537\<close> is rejected.
\<close>

lemma ean8_standard_number_rejected:
  "mod10_check_digit spec_weight ''7351353'' = 7
   \<and> calculateEANCheckDigit ''7351353'' = Some 5
   \<and> validate (JStr ''73513537'') (JStr ''ean8'') = invalid ''Invalid EAN-8 check digit''"
  by code_simp

section \<open>Properties of the type registry\<close>

lemma registered_types_checked:
  "list_all (\<lambda>t. isValid (JStr t) \<and>
                 (case getConfig (JStr t) of
                    Config c \<Rightarrow> minLength c \<le> maxLength c
                  | PrototypeMember k \<Rightarrow> False)) TYPES"
  by code_simp

lemma registered_type_config:
  assumes "t \<in> set TYPES"
  shows "isValid (JStr t) \<and> (\<exists>c. getConfig (JStr t) = Config c \<and> minLength c \<le> maxLength c)"
proof -
  have t: "isValid (JStr t) \<and>
           (case getConfig (JStr t) of
              Config c \<Rightarrow> minLength c \<le> maxLength c
            | PrototypeMember k \<Rightarrow> False)"
    using registered_types_checked assms unfolding list_all_iff by blast
  then show ?thesis
    by (cases "getConfig (JStr t)") simp_all
qed

lemma unregistered_not_valid: "t \<notin> set TYPES \<Longrightarrow> \<not> isValid (JStr t)"
  by simp

lemma configs_keys_registered: "list_all (\<lambda>(k, c). List.member TYPES k) configs"
  by code_simp

lemma unregistered_config_fallback:
  assumes "t \<notin> set TYPES" "t \<notin> set Object_prototype_keys"
  shows "getConfig (JStr t) = Config fallback_config"
proof -
  have "t \<notin> fst ` set configs"
    using configs_keys_registered assms(1) by (auto simp: list_all_iff)
  then have "map_of configs t = None"
    by (simp add: map_of_eq_None_iff)
  then show ?thesis
    using assms(2) by (simp add: getConfig_def js_get_def)
qed

text \<open>
  C7 at the identifier \<open>"constructor"\<close>: it is not registered, \<open>isValid\<close> is false, and
  \<open>configs["constructor"]\<close> finds the member inherited from \<open>Object.prototype\<close>, which
  is truthy, so \<open>getConfig\<close> returns that member and not the fallback.
\<close>

theorem getConfig_inherited_key:
  "\<not> isValid (JStr ''constructor'')
   \<and> getConfig (JStr ''constructor'') = PrototypeMember ''constructor''
   \<and> getConfig (JStr ''constructor'') \<noteq> Config fallback_config"
  by code_simp

section \<open>Properties of the barcode service\<close>

lemma variant_checker_rejections_have_message:
  "valid (validateCode128 d t) \<or> error (validateCode128 d t) \<noteq> None"
  "valid (validateCode39 d t) \<or> error (validateCode39 d t) \<noteq> None"
  by (simp_all add: validateCode128_def validateCode39_def invalid_def ok_def)

lemma checker_rejections_have_message:
  "valid (validateCode93 d) \<or> error (validateCode93 d) \<noteq> None"
  "valid (validateEAN13 d) \<or> error (validateEAN13 d) \<noteq> None"
  "valid (validateEAN8 d) \<or> error (validateEAN8 d) \<noteq> None"
  "valid (validateUPCA d) \<or> error (validateUPCA d) \<noteq> None"
  "valid (validateUPCE d) \<or> error (validateUPCE d) \<noteq> None"
  "valid (validateQRCode d) \<or> error (validateQRCode d) \<noteq> None"
  "valid (validateDataMatrix d) \<or> error (validateDataMatrix d) \<noteq> None"
  "valid (validatePDF417 d) \<or> error (validatePDF417 d) \<noteq> None"
  by (simp_all add: validateCode93_def validateEAN13_def validateEAN8_def validateUPCA_def
      validateUPCE_def validateQRCode_def validateDataMatrix_def validatePDF417_def
      invalid_def ok_def)

lemma validateByType_rejection_has_message:
  "valid (validateByType d t) \<or> error (validateByType d t) \<noteq> None"
  unfolding validateByType_def
  using variant_checker_rejections_have_message[of d t] checker_rejections_have_message[of d]
  by (simp del: not_None_eq)

lemma validate_rejection_has_message:
  "valid (validate data type) \<or> error (validate data type) \<noteq> None"
  using validateByType_rejection_has_message[of "str_of data" type]
  by (auto simp add: validate_def Let_def invalid_def simp del: isValid.simps)

text \<open>
  C6: for every call \<open>generate(data, type, format, options)\<close>, with the parameter
  defaults applied to \<open>type\<close> and \<open>format\<close>: if \<open>data\<close> is empty or not a string the
  call fails with the data error whatever the other arguments are; otherwise, if the type
  is not registered it fails with a message that lists the supported types; otherwise, if
  the format is not registered it fails with a message that lists the supported formats;
  otherwise, if the validator rejects the data it fails with the validation error. In
  each of these cases no renderer is called, and whenever a renderer is called every
  check has passed and it is called once, on the validated data and type.
\<close>

theorem generate_checks_before_rendering:
  fixes rs :: "'a renderers" and type0 format0 :: jsval
  defines "t \<equiv> default_arg type0 ''code128''"
      and "f \<equiv> default_arg format0 ''png''"
  shows "(\<not> (truthy data \<and> is_string data) \<longrightarrow>
            generate rs data type0 format0 options = (Inl ''Data must be a non-empty string'', []))
       \<and> (truthy data \<and> is_string data \<and> \<not> isValid t \<longrightarrow>
            generate rs data type0 format0 options =
              (Inl (''Invalid barcode type: '' @ js_to_string t @ ''. Supported types: ''
                    @ join '', '' getAll), []))
       \<and> (truthy data \<and> is_string data \<and> isValid t \<and> \<not> RenderFormats_isValid f \<longrightarrow>
            generate rs data type0 format0 options =
              (Inl (''Invalid format: '' @ js_to_string f @ ''. Supported formats: ''
                    @ join '', '' RenderFormats_getAll), []))
       \<and> (truthy data \<and> is_string data \<and> isValid t \<and> RenderFormats_isValid f
            \<and> \<not> valid (validate data t) \<longrightarrow>
            generate rs data type0 format0 options =
              (Inl (''Invalid data for '' @ js_to_string t @ '': ''
                    @ error_text (validate data t)), []))
       \<and> (snd (generate rs data type0 format0 options) \<noteq> [] \<longrightarrow>
            truthy data \<and> is_string data \<and> isValid t \<and> RenderFormats_isValid f
            \<and> valid (validate data t)
            \<and> snd (generate rs data type0 format0 options)
                = [(str_of f, str_of data, str_of t, options)])"
  unfolding t_def f_def generate_def Let_def
  by (simp del: isValid.simps RenderFormats_isValid.simps split: js_prop.splits)

theorem generate_checks_before_rendering_witness:
  "generate (service_renderers (node_world 0 [])) (JStr []) (JStr ''code128'') (JStr ''png'')
       no_options
     = (Inl ''Data must be a non-empty string'', [])
   \<and> generate (service_renderers (node_world 0 [])) (JStr ''1234567890'') (JStr ''invalid-type'')
       JUndefined no_options
     = (Inl (''Invalid barcode type: invalid-type. Supported types: '' @ join '', '' getAll), [])
   \<and> generate (service_renderers (node_world 0 [])) (JStr ''1234567890'') JUndefined (JStr ''gif'')
       no_options
     = (Inl ''Invalid format: gif. Supported formats: png, svg, html, pdf, jpg, jpeg'', [])
   \<and> generate (service_renderers (node_world 0 [])) (JStr ''123'') (JStr ''ean13'') (JStr ''png'')
       no_options
     = (Inl ''Invalid data for ean13: Data too short. Minimum length: 12'', [])
   \<and> snd (generate (service_renderers (node_world 0 [])) (JStr ''1234567890'') (JStr ''code128'')
            (JStr ''png'') no_options)
     = [(''png'', ''1234567890'', ''code128'', no_options)]"
proof -
  let ?rs = "service_renderers (node_world 0 [])"
  have c1: "generate ?rs (JStr []) (JStr ''code128'') (JStr ''png'') no_options
              = (Inl ''Data must be a non-empty string'', [])"
    using generate_checks_before_rendering[where rs = ?rs and data = "JStr []"
        and ?type0.0 = "JStr ''code128''" and ?format0.0 = "JStr ''png''" and options = no_options,
        THEN conjunct1]
    by simp
  have t2: "\<not> isValid (default_arg (JStr ''invalid-type'') ''code128'')"
    by code_simp
  have c2: "generate ?rs (JStr ''1234567890'') (JStr ''invalid-type'') JUndefined no_options
              = (Inl (''Invalid barcode type: invalid-type. Supported types: ''
                      @ join '', '' getAll), [])"
    using generate_checks_before_rendering[where rs = ?rs and data = "JStr ''1234567890''"
        and ?type0.0 = "JStr ''invalid-type''" and ?format0.0 = JUndefined and options = no_options,
        THEN conjunct2, THEN conjunct1] t2
    by (simp add: default_arg_def del: isValid.simps RenderFormats_isValid.simps)
  have t3: "isValid (default_arg JUndefined ''code128'')"
    "\<not> RenderFormats_isValid (default_arg (JStr ''gif'') ''png'')"
    "join '', '' RenderFormats_getAll = ''png, svg, html, pdf, jpg, jpeg''"
    by code_simp+
  have c3: "generate ?rs (JStr ''1234567890'') JUndefined (JStr ''gif'') no_options
              = (Inl ''Invalid format: gif. Supported formats: png, svg, html, pdf, jpg, jpeg'', [])"
    using generate_checks_before_rendering[where rs = ?rs and data = "JStr ''1234567890''"
        and ?type0.0 = JUndefined and ?format0.0 = "JStr ''gif''" and options = no_options,
        THEN conjunct2, THEN conjunct2, THEN conjunct1] t3
    by (simp add: default_arg_def del: isValid.simps RenderFormats_isValid.simps)
  have t4: "isValid (default_arg (JStr ''ean13'') ''code128'')"
    "RenderFormats_isValid (default_arg (JStr ''png'') ''png'')"
    "\<not> valid (validate (JStr ''123'') (default_arg (JStr ''ean13'') ''code128''))"
    "error_text (validate (JStr ''123'') (default_arg (JStr ''ean13'') ''code128''))
       = ''Data too short. Minimum length: 12''"
    by code_simp+
  have c4: "generate ?rs (JStr ''123'') (JStr ''ean13'') (JStr ''png'') no_options
              = (Inl ''Invalid data for ean13: Data too short. Minimum length: 12'', [])"
    using generate_checks_before_rendering[where rs = ?rs and data = "JStr ''123''"
        and ?type0.0 = "JStr ''ean13''" and ?format0.0 = "JStr ''png''" and options = no_options,
        THEN conjunct2, THEN conjunct2, THEN conjunct2, THEN conjunct1] t4
    by (simp add: default_arg_def del: isValid.simps RenderFormats_isValid.simps)
  have t5: "snd (generate ?rs (JStr ''1234567890'') (JStr ''code128'') (JStr ''png'') no_options)
              \<noteq> []"
    by code_simp
  have c5: "snd (generate ?rs (JStr ''1234567890'') (JStr ''code128'') (JStr ''png'') no_options)
              = [(''png'', ''1234567890'', ''code128'', no_options)]"
    using generate_checks_before_rendering[where rs = ?rs and data = "JStr ''1234567890''"
        and ?type0.0 = "JStr ''code128''" and ?format0.0 = "JStr ''png''" and options = no_options,
        THEN conjunct2, THEN conjunct2, THEN conjunct2, THEN conjunct2] t5
    by (simp add: default_arg_def del: isValid.simps RenderFormats_isValid.simps)
  show ?thesis
    using c1 c2 c3 c4 c5 by blast
qed

lemma batch_entry_index: "index (fst (batch_entry rs i item)) = i"
  by (simp add: batch_entry_def split: prod.splits sum.splits)

lemma batch_entry_data: "br_data (fst (batch_entry rs i item)) = item_data item"
  by (simp add: batch_entry_def split: prod.splits sum.splits)

lemma batch_entry_outcome:
  "(case fst (item_generate rs item) of
      Inl msg \<Rightarrow> \<not> success (fst (batch_entry rs i item))
                 \<and> br_error (fst (batch_entry rs i item)) = Some msg
                 \<and> result (fst (batch_entry rs i item)) = None
    | Inr a \<Rightarrow> success (fst (batch_entry rs i item))
               \<and> result (fst (batch_entry rs i item)) = Some a
               \<and> br_error (fst (batch_entry rs i item)) = None)"
  by (simp add: batch_entry_def split: prod.splits sum.splits)

lemma batch_from_items:
  "batch_from rs k (map Item items) =
     (Inr (map (\<lambda>(i, item). fst (batch_entry rs i item)) (List.enumerate k items)),
      concat (map (\<lambda>(i, item). snd (batch_entry rs i item)) (List.enumerate k items)))"
  by (induction items arbitrary: k) (simp_all add: split_beta)

text \<open>
  On a list whose elements are all objects, \<open>batch\<close> returns a list of the same length;
  the result at position \<open>i\<close> is the callback's result for index \<open>i\<close> and item \<open>i\<close> alone,
  carries index \<open>i\<close> and the item's data, and has \<open>success: false\<close> with the error's
  message when the item's \<open>generate\<close> throws, \<open>success: true\<close> with the value when it
  returns.
\<close>

lemma batch_object_items:
  "\<exists>results. fst (batch rs (map Item items)) = Inr results
     \<and> length results = length items
     \<and> (\<forall>i<length items.
          results ! i = fst (batch_entry rs i (items ! i))
          \<and> index (results ! i) = i
          \<and> br_data (results ! i) = item_data (items ! i)
          \<and> (case fst (item_generate rs (items ! i)) of
                Inl msg \<Rightarrow> \<not> success (results ! i) \<and> br_error (results ! i) = Some msg
                           \<and> result (results ! i) = None
              | Inr a \<Rightarrow> success (results ! i) \<and> result (results ! i) = Some a
                         \<and> br_error (results ! i) = None))"
proof -
  let ?results = "map (\<lambda>(i, item). fst (batch_entry rs i item)) (List.enumerate 0 items)"
  have r: "fst (batch rs (map Item items)) = Inr ?results"
    by (simp add: batch_def batch_from_items)
  have e: "?results ! i = fst (batch_entry rs i (items ! i))" if "i < length items" for i
    using that by (simp add: nth_enumerate_eq)
  have "\<forall>i<length items.
          ?results ! i = fst (batch_entry rs i (items ! i))
          \<and> index (?results ! i) = i
          \<and> br_data (?results ! i) = item_data (items ! i)
          \<and> (case fst (item_generate rs (items ! i)) of
                Inl msg \<Rightarrow> \<not> success (?results ! i) \<and> br_error (?results ! i) = Some msg
                           \<and> result (?results ! i) = None
              | Inr a \<Rightarrow> success (?results ! i) \<and> result (?results ! i) = Some a
                         \<and> br_error (?results ! i) = None)"
  proof (intro allI impI)
    fix i assume "i < length items"
    then have ei: "?results ! i = fst (batch_entry rs i (items ! i))"
      by (rule e)
    show "?results ! i = fst (batch_entry rs i (items ! i))
          \<and> index (?results ! i) = i
          \<and> br_data (?results ! i) = item_data (items ! i)
          \<and> (case fst (item_generate rs (items ! i)) of
                Inl msg \<Rightarrow> \<not> success (?results ! i) \<and> br_error (?results ! i) = Some msg
                           \<and> result (?results ! i) = None
              | Inr a \<Rightarrow> success (?results ! i) \<and> result (?results ! i) = Some a
                         \<and> br_error (?results ! i) = None)"
      unfolding ei
      by (intro conjI refl batch_entry_index batch_entry_data batch_entry_outcome)
  qed
  moreover have "length ?results = length items"
    by simp
  ultimately show ?thesis
    using r by blast
qed

lemma batch_sample_items:
  "\<exists>results. fst (batch (service_renderers (node_world 0 [])) (map Item sample_items)) = Inr results
     \<and> length results = 2
     \<and> index (results ! 0) = 0 \<and> success (results ! 0)
     \<and> index (results ! 1) = 1 \<and> \<not> success (results ! 1)
     \<and> br_error (results ! 1) = Some ''Data must be a non-empty string''"
proof -
  let ?rs = "service_renderers (node_world 0 [])"
  have l: "length sample_items = 2"
    by (simp add: sample_items_def)
  have g0: "fst (item_generate ?rs (sample_items ! 0))
              = Inr (PngBuffer (map code_unit ''1234567890''))"
    by code_simp
  have g1: "fst (item_generate ?rs (sample_items ! 1)) = Inl ''Data must be a non-empty string''"
    by code_simp
  obtain results where r: "fst (batch ?rs (map Item sample_items)) = Inr results"
    and n: "length results = length sample_items"
    and a: "\<forall>i<length sample_items.
              index (results ! i) = i
              \<and> (case fst (item_generate ?rs (sample_items ! i)) of
                    Inl msg \<Rightarrow> \<not> success (results ! i) \<and> br_error (results ! i) = Some msg
                               \<and> result (results ! i) = None
                  | Inr a \<Rightarrow> success (results ! i) \<and> result (results ! i) = Some a
                             \<and> br_error (results ! i) = None)"
    using batch_object_items[of ?rs sample_items] by blast
  have a0: "index (results ! 0) = 0 \<and> success (results ! 0)"
    using a[rule_format, of 0] g0 l by simp
  have a1: "index (results ! 1) = 1 \<and> \<not> success (results ! 1)
            \<and> br_error (results ! 1) = Some ''Data must be a non-empty string''"
    using a[rule_format, of 1] g1 l by simp
  show ?thesis
    using r n l a0 a1 by auto
qed

lemma batch_from_null_element:
  "fst (batch_from rs k (map Item items @ NullItem # rest)) = Inl (cannot_read ''null'')"
  by (induction items arbitrary: k) (simp_all add: split_beta split: sum.splits)

lemma batch_from_undefined_element:
  "fst (batch_from rs k (map Item items @ UndefinedItem # rest)) = Inl (cannot_read ''undefined'')"
  by (induction items arbitrary: k) (simp_all add: split_beta split: sum.splits)

text \<open>
  C5 at \<open>batch([item, null])\<close>: the destructuring of \<open>null\<close> throws inside \<open>try\<close>, and the
  \<open>catch\<close> handler throws again on \<open>item.data\<close>, so \<open>batch\<close> throws and returns no list,
  whatever the first item is. The same holds for any array whose first element that is
  no object is \<open>null\<close> or \<open>undefined\<close>.
\<close>

theorem batch_null_element:
  "fst (batch rs [Item item, NullItem]) = Inl (cannot_read ''null'')
   \<and> fst (batch rs (map Item items @ NullItem # rest)) = Inl (cannot_read ''null'')
   \<and> fst (batch rs (map Item items @ UndefinedItem # rest)) = Inl (cannot_read ''undefined'')"
  using batch_from_null_element[of rs 0 "[item]" "[]"]
    batch_from_null_element[of rs 0 items rest]
    batch_from_undefined_element[of rs 0 items rest]
  by (simp add: batch_def)

section \<open>Properties of the renderers\<close>

lemma show_clock_0: "show_nat 1700000000000 = ''1700000000000''"
  by (simp add: show_nat_def show_nat_radix.simps digit_char_def)

lemma show_clock_1: "show_nat 1700000000001 = ''1700000000001''"
  by (simp add: show_nat_def show_nat_radix.simps digit_char_def)

text \<open>
  C3, as the specification states it, makes the markup renderer return the same string
  on every invocation with the same data, type and options. With no \<open>id\<close> option, two
  invocations one millisecond apart return different strings:
  the container ids are \<open>barcode-1700000000000-4fzyo82mv\<close> and
  \<open>barcode-1700000000001-9x1c3k7qd\<close>.
\<close>

theorem render_deterministic_counterexample:
  "HTMLRenderer_render (node_world 1700000000000 ''0.4fzyo82mvyr'') ''1'' ''code128'' no_options
   \<noteq> HTMLRenderer_render (node_world 1700000000001 ''0.9x1c3k7qd2b'') ''1'' ''code128'' no_options"
proof -
  have c1: "containerId (node_world 1700000000000 ''0.4fzyo82mvyr'') (html_merge_options no_options)
              = ''barcode-1700000000000-4fzyo82mv''"
    by (simp add: containerId_def html_merge_options_def renderOptions.extend_def
        no_options_def node_world_def given_def show_clock_0)
  have c2: "containerId (node_world 1700000000001 ''0.9x1c3k7qd2b'') (html_merge_options no_options)
              = ''barcode-1700000000001-9x1c3k7qd''"
    by (simp add: containerId_def html_merge_options_def renderOptions.extend_def
        no_options_def node_world_def given_def show_clock_1)
  show ?thesis
    unfolding HTMLRenderer_render_def createHTMLStructure_def Let_def c1 c2
    by simp
qed

text \<open>
  C3, amended: for every fixed data, type and options, two invocations of the markup
  renderer return the same string provided the \<open>id\<close> option is given (non-empty), and
  two invocations of the vector renderer return the same string whenever its first
  attempt throws on both, as it does where \<open>document\<close> is not defined: the string is
  then the manual construction from data, type and options. The clock, the random
  source and the libraries of the two invocations are arbitrary. The raster and the
  document renderer are left out: their bytes are made by external libraries.
\<close>

theorem render_deterministic:
  "(given (opt_id options) \<longrightarrow>
      HTMLRenderer_render W data type options = HTMLRenderer_render W' data type options)
   \<and> (JsBarcode_svg W data (mapBarcodeType type) (merge_options options) = Inl e
       \<and> JsBarcode_svg W' data (mapBarcodeType type) (merge_options options) = Inl e' \<longrightarrow>
       SVGRenderer_render W data type options = Inr (Markup (createManualSVG data type options))
       \<and> SVGRenderer_render W' data type options = SVGRenderer_render W data type options)"
proof -
  have html: "HTMLRenderer_render W data type options = HTMLRenderer_render W' data type options"
    if "given (opt_id options)"
  proof -
    have "ro_id (html_merge_options options) = opt_id options"
      by (simp add: html_merge_options_def renderOptions.extend_def)
    then have "containerId W (html_merge_options options)
                 = containerId W' (html_merge_options options)"
      using that by (simp add: containerId_def)
    then show ?thesis
      by (simp add: HTMLRenderer_render_def createHTMLStructure_def)
  qed
  have svg: "SVGRenderer_render V data type options
               = Inr (Markup (createManualSVG data type options))"
    if "JsBarcode_svg V data (mapBarcodeType type) (merge_options options) = Inl x" for V x
    using that by (simp add: SVGRenderer_render_def)
  show ?thesis
    using html svg by metis
qed

theorem render_deterministic_witness:
  "given (opt_id (no_options\<lparr>opt_id := Some ''label-1''\<rparr>))
   \<and> HTMLRenderer_render (node_world 1700000000000 ''0.4fzyo82mvyr'') ''1'' ''code128''
       (no_options\<lparr>opt_id := Some ''label-1''\<rparr>)
     = HTMLRenderer_render (node_world 1700000000001 ''0.9x1c3k7qd2b'') ''1'' ''code128''
         (no_options\<lparr>opt_id := Some ''label-1''\<rparr>)
   \<and> JsBarcode_svg (node_world 1700000000000 ''0.4fzyo82mvyr'') ''1'' (mapBarcodeType ''code128'')
       (merge_options no_options) = Inl ''document is not defined''
   \<and> JsBarcode_svg (node_world 1700000000001 ''0.9x1c3k7qd2b'') ''1'' (mapBarcodeType ''code128'')
       (merge_options no_options) = Inl ''document is not defined''
   \<and> SVGRenderer_render (node_world 1700000000001 ''0.9x1c3k7qd2b'') ''1'' ''code128'' no_options
     = SVGRenderer_render (node_world 1700000000000 ''0.4fzyo82mvyr'') ''1'' ''code128'' no_options"
proof -
  let ?W = "node_world 1700000000000 ''0.4fzyo82mvyr''"
  let ?W' = "node_world 1700000000001 ''0.9x1c3k7qd2b''"
  have g: "given (opt_id (no_options\<lparr>opt_id := Some ''label-1''\<rparr>))"
    by (simp add: given_def)
  have f: "JsBarcode_svg ?W ''1'' (mapBarcodeType ''code128'') (merge_options no_options)
             = Inl ''document is not defined''"
    by (simp add: node_world_def)
  have f': "JsBarcode_svg ?W' ''1'' (mapBarcodeType ''code128'') (merge_options no_options)
              = Inl ''document is not defined''"
    by (simp add: node_world_def)
  have h: "HTMLRenderer_render ?W ''1'' ''code128'' (no_options\<lparr>opt_id := Some ''label-1''\<rparr>)
             = HTMLRenderer_render ?W' ''1'' ''code128'' (no_options\<lparr>opt_id := Some ''label-1''\<rparr>)"
    using render_deterministic[where W = ?W and W' = ?W' and data = "''1''"
        and type = "''code128''" and options = "no_options\<lparr>opt_id := Some ''label-1''\<rparr>",
        THEN conjunct1] g
    by blast
  have v: "SVGRenderer_render ?W' ''1'' ''code128'' no_options
             = SVGRenderer_render ?W ''1'' ''code128'' no_options"
    using render_deterministic[where W = ?W and W' = ?W' and data = "''1''"
        and type = "''code128''" and options = no_options
        and e = "''document is not defined''" and e' = "''document is not defined''",
        THEN conjunct2] f f'
    by blast
  show ?thesis
    using g h f f' v by blast
qed

section \<open>Properties of the composition builder\<close>

lemma compose_dimensions:
  assumes "fst (compose W opts) = Inr buf"
  shows "buf_width buf = qr_size opts \<and> buf_height buf = qr_size opts"
proof -
  have logo: "c_width (fst (addLogo W opts ctx)) = c_width ctx \<and> c_height (fst (addLogo W opts ctx)) = c_height ctx" for ctx
    by (simp add: addLogo_def fillRect_def drawImageSized_def Let_def split: sum.splits)
  have wm: "c_width (fst (addWatermark W opts ctx)) = c_width ctx \<and> c_height (fst (addWatermark W opts ctx)) = c_height ctx" for ctx
    by (simp add: addWatermark_def fillText_def drawImageSized_def Let_def split: sum.splits)
  have lb: "c_width (addLabel opts ctx) = c_width ctx \<and> c_height (addLabel opts ctx) = c_height ctx" for ctx
    by (simp add: addLabel_def fillText_def Let_def)
  show ?thesis
    using assms
    by (auto simp: compose_def toBuffer_def createCanvas_def fillRect_def drawImage_def Let_def
        logo wm lb split_beta
        split: sum.splits option.splits if_splits)
qed


lemma sample_world_resolves: "\<exists>buf. fst (compose sample_world opts) = Inr buf"
  by (simp add: compose_def sample_world_def toBuffer_def Let_def split_beta)







lemma generate_after_setter:
  "QrCodeResult_generate W (snd (call_setter b c h)) (QrCodeBuilder_build b)
     = compose W (assignment c (objects h (builder_options b)))"
  by (simp add: QrCodeResult_generate_def QrCodeBuilder_build_def call_setter_def assign_def)

text \<open>
  C4, as the specification states it, makes the result of \<open>build()\<close> hold a snapshot, so
  that a later setter call leaves the output of the result's \<open>generate()\<close> unchanged. A
  builder is created, \<open>build()\<close> is called, then \<open>size(500)\<close>: the result's \<open>generate()\<close>
  after the call differs from what it gives without it (a surface of 500 instead of 300).
\<close>

theorem snapshot_counterexample:
  "(let (b, h0) = QrCodeBuilder_create (\<lambda>opts. opts\<lparr>qr_data := ''A''\<rparr>) empty_heap;
        r = QrCodeBuilder_build b;
        (b', h1) = call_setter b (Size 500) h0
    in QrCodeResult_generate sample_world h1 r \<noteq> QrCodeResult_generate sample_world h0 r)"
proof -
  define opts0 where "opts0 = default_qr_options\<lparr>qr_data := ''A''\<rparr>"
  have s0: "qr_size opts0 = 300"
    by (simp add: opts0_def default_qr_options_def)
  obtain buf0 where b0: "fst (compose sample_world opts0) = Inr buf0"
    using sample_world_resolves by blast
  obtain buf1 where b1: "fst (compose sample_world (opts0\<lparr>qr_size := 500\<rparr>)) = Inr buf1"
    using sample_world_resolves by blast
  have "buf_width buf0 = 300"
    using compose_dimensions[OF b0] s0 by simp
  moreover have "buf_width buf1 = 500"
    using compose_dimensions[OF b1] by simp
  ultimately have "buf0 \<noteq> buf1"
    by auto
  then have ne: "compose sample_world (opts0\<lparr>qr_size := 500\<rparr>) \<noteq> compose sample_world opts0"
    using b0 b1 by auto
  have h0: "QrCodeBuilder_create (\<lambda>opts. opts\<lparr>qr_data := ''A''\<rparr>) empty_heap
              = (\<lparr>builder_options = 0\<rparr>,
                 \<lparr>objects = (\<lambda>r. default_qr_options)(0 := opts0), next_ref = 1\<rparr>)"
    by (simp add: QrCodeBuilder_create_def empty_heap_def opts0_def)
  show ?thesis
    using ne
    by (simp add: h0 generate_after_setter QrCodeResult_generate_def QrCodeBuilder_build_def
        call_setter_def assign_def)
qed

lemma call_setter_object:
  "objects (snd (call_setter b c h)) (builder_options b)
     = assignment c (objects h (builder_options b))"
  by (simp add: call_setter_def assign_def)

lemma call_setters_object:
  "objects (call_setters b cs h) (builder_options b)
     = fold assignment cs (objects h (builder_options b))"
proof (induction cs arbitrary: h)
  case Nil
  then show ?case by (simp add: call_setters_def)
next
  case (Cons c cs)
  have "call_setters b (c # cs) h = call_setters b cs (snd (call_setter b c h))"
    by (simp add: call_setters_def)
  then show ?case
    using Cons.IH[of "snd (call_setter b c h)"] by (simp add: call_setter_object)
qed

text \<open>
  C4, amended: \<open>build()\<close> copies nothing: the result holds the builder's own
  configuration object. For fluent-setter calls on the builder that are completed before
  the result's \<open>generate()\<close> starts (each returns the same builder), whether made before
  or after \<open>build()\<close>, \<open>generate()\<close> composes the configuration with the assignments of
  all these calls applied in order; with no such call, the configuration the builder
  had at \<open>build()\<close>.
\<close>

theorem built_result_follows_builder:
  "QrCodeResult_generate W (call_setters b cs h) (QrCodeBuilder_build b)
     = compose W (fold assignment cs (objects h (builder_options b)))
   \<and> fst (call_setter b c h) = b"
  by (simp add: QrCodeResult_generate_def QrCodeBuilder_build_def call_setters_object
      call_setter_def assign_def)

theorem built_result_follows_builder_witness:
  "QrCodeResult_generate sample_world
     (call_setters (fst sample_builder) [Size 500, Label (Some ''Scan me'')] (snd sample_builder))
     (QrCodeBuilder_build (fst sample_builder))
   = compose sample_world
       (default_qr_options\<lparr>qr_data := ''https://example.com'', qr_size := 500,
                           qr_label := Some ''Scan me''\<rparr>)"
  using built_result_follows_builder[where W = sample_world and h = "snd sample_builder"
      and b = "fst sample_builder" and cs = "[Size 500, Label (Some ''Scan me'')]"]
  by (simp add: sample_builder_def QrCodeBuilder_create_def empty_heap_def)



text \<open>
  C9 at the position \<open>"constructor"\<close>: it is none of the nine names, and
  \<open>positions["constructor"]\<close> finds the member inherited from \<open>Object.prototype\<close>, which
  is truthy, so \<open>getWatermarkPosition\<close> returns that member and not the center anchor;
  a name found nowhere, such as \<open>"middle"\<close>, resolves to the center.
\<close>

theorem watermark_position_inherited_key:
  "\<not> List.member getWatermarkPositions ''constructor''
   \<and> getWatermarkPosition (default_qr_options\<lparr>qr_watermarkPosition := JStr ''constructor''\<rparr>) 0
       = AnchorMember ''constructor''
   \<and> getWatermarkPosition (default_qr_options\<lparr>qr_watermarkPosition := JStr ''middle''\<rparr>) 0
       = Anchor 150 150"
  by (simp add: getWatermarkPositions_def getWatermarkPosition_def js_get_def positions_def
      Object_prototype_keys_def default_qr_options_def center_def)

lemma getWatermarkPositions_entries:
  "length getWatermarkPositions = 9 \<and> distinct getWatermarkPositions
   \<and> ''center'' \<in> set getWatermarkPositions \<and> ''top-left'' \<in> set getWatermarkPositions
   \<and> ''bottom-right'' \<in> set getWatermarkPositions"
  by (simp add: getWatermarkPositions_def)

lemma named_positions_formulas:
  "map (\<lambda>p. getWatermarkPosition (opts\<lparr>qr_watermarkPosition := JStr p\<rparr>) s) getWatermarkPositions
     = (let S = qr_size opts in
        [Anchor 10 10, Anchor (S - s - 10) 10, Anchor 10 (S - s - 10),
         Anchor (S - s - 10) (S - s - 10), Anchor ((S - s) / 2) ((S - s) / 2),
         Anchor ((S - s) / 2) 10, Anchor ((S - s) / 2) (S - s - 10),
         Anchor 10 ((S - s) / 2), Anchor (S - s - 10) ((S - s) / 2)])"
  by (simp add: getWatermarkPositions_def getWatermarkPosition_def js_get_def positions_def
      center_def Let_def)

lemma unknown_position_center:
  assumes "js_to_string p \<notin> set getWatermarkPositions"
      and "js_to_string p \<notin> set Object_prototype_keys"
  shows "getWatermarkPosition (opts\<lparr>qr_watermarkPosition := p\<rparr>) s
           = Anchor ((qr_size opts - s) / 2) ((qr_size opts - s) / 2)"
proof -
  have "map_of (positions (qr_size opts) s) (js_to_string p) = None"
    using assms(1) by (simp add: positions_def getWatermarkPositions_def)
  then show ?thesis
    using assms(2) by (simp add: getWatermarkPosition_def js_get_def center_def)
qed


text \<open>
  C10: for every configuration, \<open>getString()\<close> settles with exactly what \<open>generate()\<close>
  settles with: the buffer (or the same rejection), and the same warnings.
\<close>

theorem getString_is_generate:
  "QrCodeResult_getString W h r = QrCodeResult_generate W h r"
  by (simp add: QrCodeResult_getString_def)

theorem getString_is_generate_witness:
  "\<exists>buf. fst (QrCodeResult_getString sample_world (snd sample_builder)
                (QrCodeBuilder_build (fst sample_builder))) = Inr buf
          \<and> buf_width buf = 300 \<and> buf_height buf = 300"
proof -
  let ?opts = "objects (snd sample_builder) (result_options (QrCodeBuilder_build (fst sample_builder)))"
  have s: "qr_size ?opts = 300"
    by (simp add: sample_builder_def QrCodeBuilder_create_def QrCodeBuilder_build_def
        empty_heap_def default_qr_options_def)
  obtain buf where b: "fst (compose sample_world ?opts) = Inr buf"
    using sample_world_resolves by blast
  have "fst (QrCodeResult_getString sample_world (snd sample_builder)
               (QrCodeBuilder_build (fst sample_builder))) = Inr buf"
    using getString_is_generate[of sample_world "snd sample_builder"
        "QrCodeBuilder_build (fst sample_builder)"] b
    by (simp add: QrCodeResult_generate_def)
  then show ?thesis
    using compose_dimensions[OF b] s by auto
qed

end
